theory Spec2Isabelle
  imports Complex_Main "HOL-Library.Sublist" "HOL-Library.Log_Nat"
begin

section \<open>JavaScript values used by the program\<close>

text \<open>
  Strings are byte lists holding the UTF-8 bytes of the source's literals; the program
  only concatenates them. Numbers that count things (credits, HTTP status codes, indices,
  seconds into a call) are integers of magnitude below \<open>2^53\<close>, which JavaScript holds
  exactly and prints in plain decimal. The duration of a call is a whole number of any
  size that a double can hold, and its division by 60 is the double's. Latencies are
  fractions of a second and are modelled by the exact rational value of the double.
\<close>

definition digit_char :: "nat \<Rightarrow> char" where
  "digit_char d = ''0123456789'' ! d"

fun decimal :: "nat \<Rightarrow> string" where
  "decimal n = (if n < 10 then [digit_char n] else decimal (n div 10) @ [digit_char (n mod 10)])"

declare decimal.simps [simp del]

text \<open>Template interpolation \<^verbatim>\<open>${n}\<close> of an integer-valued number.\<close>

definition number_to_string :: "int \<Rightarrow> string" where
  "number_to_string i = (if i < 0 then ''-'' @ decimal (nat (- i)) else decimal (nat i))"

text \<open>
  Binary64 arithmetic, where a claim depends on it. A number is the rational it denotes.
  \<open>binade x\<close> is the exponent \<open>e\<close> with \<open>2^e \<le> x < 2^(e+1)\<close> for positive \<open>x\<close>;
  \<open>binary64 x\<close> is the double nearest to \<open>x\<close>, a multiple of \<open>2^(e-52)\<close>, ties going
  to the even multiple (the range of the exponent is not limited: overflow and
  subnormal numbers are out of reach of a division of a whole number by 60).
\<close>

definition binade :: "rat \<Rightarrow> int" where
  "binade x = (if 1 \<le> x then bitlen \<lfloor>x\<rfloor> - 1 else - bitlen (\<lceil>1 / x\<rceil> - 1))"

definition round_half_even :: "rat \<Rightarrow> int" where
  "round_half_even y =
     (let n = \<lfloor>y\<rfloor>; d = y - of_int n
      in if d < 1 / 2 then n else if 1 / 2 < d then n + 1 else if even n then n else n + 1)"

definition binary64 :: "rat \<Rightarrow> rat" where
  "binary64 x =
     (if x = 0 then 0
      else let u = 2 powi (binade \<bar>x\<bar> - 52)
           in sgn x * (u * of_int (round_half_even (\<bar>x\<bar> / u))))"

text \<open>
  \<^verbatim>\<open>Number::toString\<close> of a whole number: plain decimal below \<open>2^53\<close>, where every
  digit is significant; from there on the platform prints the shortest digits that
  read back as the same double, which is the parameter \<open>big\<close>.
\<close>

definition Number_toString :: "(rat \<Rightarrow> string) \<Rightarrow> int \<Rightarrow> string" where
  "Number_toString big i = (if \<bar>i\<bar> < 2 ^ 53 then number_to_string i else big (of_int i))"

text \<open>The operator \<^verbatim>\<open>%\<close>: the sign follows the dividend.\<close>

definition js_remainder :: "int \<Rightarrow> int \<Rightarrow> int" where
  "js_remainder a b = sgn a * (\<bar>a\<bar> mod \<bar>b\<bar>)"

text \<open>Truthiness of a \<^verbatim>\<open>string | undefined\<close>: defined and not empty.\<close>

definition truthy :: "string option \<Rightarrow> bool" where
  "truthy s = (case s of None \<Rightarrow> False | Some v \<Rightarrow> v \<noteq> [])"

text \<open>
  \<^verbatim>\<open>x.toFixed(3)\<close>, following ECMAScript: the sign, then the integer \<open>n\<close> nearest to
  \<open>1000 * |x|\<close> (the larger one on a tie) printed with at least four digits and a point
  before the last three. At \<open>10^21\<close> and above the platform's \<^verbatim>\<open>Number::toString\<close>
  takes over; it is the parameter \<open>big\<close>.
\<close>

definition toFixed3 :: "(rat \<Rightarrow> string) \<Rightarrow> rat \<Rightarrow> string" where
  "toFixed3 big x =
     (let s = (if x < 0 then ''-'' else '''');
          y = \<bar>x\<bar>
      in if 10 ^ 21 \<le> y then s @ big y
         else let n = nat \<lfloor>y * 1000 + 1 / 2\<rfloor>;
                  m = decimal n;
                  m' = (if length m \<le> 3 then replicate (4 - length m) (CHR ''0'') @ m else m);
                  k = length m'
              in s @ take (k - 3) m' @ ''.'' @ drop (k - 3) m')"

text \<open>\<^verbatim>\<open>a || b\<close> on an optional string: the left side when it is truthy.\<close>

definition or_else :: "string option \<Rightarrow> string \<Rightarrow> string" where
  "or_else a b = (case a of None \<Rightarrow> b | Some v \<Rightarrow> if v = [] then b else v)"


section \<open>The data model (types/elevenlabs.ts)\<close>

text \<open>
  The type parameter \<open>'p\<close> stands for \<^verbatim>\<open>any\<close>: a JSON value as the server sent it.
  Optional and nullable fields are options. The response body is not validated, and the
  formatter itself guards \<^verbatim>\<open>transcript\<close> with \<^verbatim>\<open>?.\<close>, so \<open>transcript\<close> is an
  option too, and \<open>metadata\<close> may be undefined or null (the runtime's error names
  which), although the interface declares both required.
\<close>

datatype role = user | agent

datatype 'a nullable = Undefined | Null | Present 'a

record 'p ToolCall =
  tool_call_id :: string
  name :: string
  parameters :: 'p

record 'p ToolResult =
  tool_call_id :: string
  result :: 'p
  error :: "string option"

record latency =
  elapsed_time :: rat

record TurnMetrics =
  convai_llm_service_ttfb :: "latency option"
  convai_llm_service_ttf_sentence :: "latency option"

record 'p ConversationMessage =
  role :: role
  message :: string
  tool_calls :: "'p ToolCall list option"
  tool_results :: "'p ToolResult list option"
  time_in_call_secs :: int
  conversation_turn_metrics :: "TurnMetrics option"

record ConversationMetadata =
  start_time_unix_secs :: int
  call_duration_secs :: int
  cost :: int
  termination_reason :: "string option"

record ConversationAnalysis =
  call_successful :: string
  transcript_summary :: string

record 'p Conversation =
  conversation_id :: string
  agent_id :: string
  status :: string
  transcript :: "'p ConversationMessage list option"
  metadata :: "ConversationMetadata nullable"
  analysis :: "ConversationAnalysis option"

record ConversationListItem =
  conversation_id :: string
  agent_id :: string
  created_at :: string
  status :: "string option"

record ConversationListResponse =
  conversations :: "ConversationListItem list"

record ListConversationsOptions =
  limit :: "int option"
  offset :: "int option"


section \<open>The remote service client (lib/api-client.ts)\<close>

text \<open>
  The HTTP library is outside the program. Its \<^verbatim>\<open>get\<close> is a function from the request
  to either the rejection value or the body (\<^verbatim>\<open>response.data\<close>); a rejection carries a
  \<open>response\<close> exactly when the server answered. \<open>params\<close> is empty when the call
  passes none.
\<close>

record error_response =
  status :: int
  statusText :: string

record transport_error =
  message :: string
  response :: "error_response option"

record request =
  url :: string
  params :: "(string \<times> int option) list"
  responseType :: "string option"

record axios_config =
  baseURL :: string
  headers :: "(string \<times> string) list"

type_synonym 'd http_get = "request \<Rightarrow> transport_error + 'd"

text \<open>
  What a function of the program throws: a fresh \<^verbatim>\<open>new Error(msg)\<close>, the transport's
  own rejection passed on by \<^verbatim>\<open>throw error\<close>, or the runtime's \<^verbatim>\<open>TypeError\<close>.
\<close>

datatype thrown = Error string | Rethrown transport_error | TypeError string

definition ElevenLabsClient :: "(axios_config \<Rightarrow> 'd http_get) \<Rightarrow> string \<Rightarrow> 'd http_get" where
  "ElevenLabsClient axios_create apiKey =
     axios_create \<lparr>baseURL = ''https://api.elevenlabs.io'', headers = [(''xi-api-key'', apiKey)]\<rparr>"

definition getConversation :: "'d http_get \<Rightarrow> string \<Rightarrow> thrown + 'd" where
  "getConversation client conversationId =
     (case client \<lparr>url = ''/v1/convai/conversations/'' @ conversationId, params = [],
                    responseType = None\<rparr> of
        Inr data \<Rightarrow> Inr data
      | Inl err \<Rightarrow>
          (case response err of
             Some r \<Rightarrow> Inl (Error (''API Error: '' @ number_to_string (error_response.status r)
                                    @ '' '' @ statusText r))
           | None \<Rightarrow> Inl (Rethrown err)))"

definition listConversations_request :: "ListConversationsOptions option \<Rightarrow> request" where
  "listConversations_request options =
     \<lparr>url = ''/v1/convai/conversations'',
      params = [(''page_size'', Option.bind options limit)],
      responseType = None\<rparr>"

definition listConversations :: "'d http_get \<Rightarrow> ListConversationsOptions option \<Rightarrow> thrown + 'd" where
  "listConversations client options =
     (case client (listConversations_request options) of
        Inr data \<Rightarrow> Inr data
      | Inl err \<Rightarrow>
          (case response err of
             Some r \<Rightarrow> Inl (Error (''API Error: '' @ number_to_string (error_response.status r)
                                    @ '' '' @ statusText r))
           | None \<Rightarrow> Inl (Rethrown err)))"

definition getAudio :: "'d http_get \<Rightarrow> string \<Rightarrow> thrown + 'd" where
  "getAudio client conversationId =
     (case client \<lparr>url = ''/v1/convai/conversations/'' @ conversationId @ ''/audio'', params = [],
                    responseType = Some ''arraybuffer''\<rparr> of
        Inr data \<Rightarrow> Inr data
      | Inl err \<Rightarrow>
          (case response err of
             Some r \<Rightarrow> Inl (Error (''API Error: '' @ number_to_string (error_response.status r)
                                    @ '' '' @ statusText r))
           | None \<Rightarrow> Inl (Rethrown err)))"


section \<open>The configuration resolver (lib/config.ts)\<close>

text \<open>
  The process environment maps variable names to strings. A file system maps the path of
  each existing env file to the key/value pairs that the dotenv parser reads from it.
\<close>

type_synonym env = "string \<rightharpoonup> string"
type_synonym filesystem = "string \<rightharpoonup> (string \<rightharpoonup> string)"

record Config =
  apiKey :: string

record LoadConfigOptions =
  apiKey :: "string option"
  envPath :: "string option"

text \<open>
  Modelled from the spec: \<^verbatim>\<open>dotenv.config({ path })\<close> belongs to the dotenv package,
  which is not among the sources. It parses the file as \<^verbatim>\<open>KEY=VALUE\<close> lines and merges
  them into the process environment without overwriting variables already set there
  (a variable set to the empty string is set).
\<close>

definition dotenv_config :: "filesystem \<Rightarrow> string \<Rightarrow> env \<Rightarrow> env" where
  "dotenv_config fs path env =
     (case fs path of
        None \<Rightarrow> env
      | Some parsed \<Rightarrow> (\<lambda>key. case env key of Some v \<Rightarrow> Some v | None \<Rightarrow> parsed key))"

text \<open>
  \<open>default_path\<close> is the value of \<^verbatim>\<open>path.join(__dirname, '../../.env')\<close>. The result
  is what the call returns or throws, paired with the process environment it leaves.
\<close>

definition loadConfig ::
  "string \<Rightarrow> filesystem \<Rightarrow> env \<Rightarrow> LoadConfigOptions \<Rightarrow> (thrown + Config) \<times> env" where
  "loadConfig default_path fs env options =
     (case LoadConfigOptions.apiKey options of
        Some (c # cs) \<Rightarrow> (Inr \<lparr>Config.apiKey = c # cs\<rparr>, env)
      | _ \<Rightarrow>
          (let envPath' = or_else (envPath options) default_path;
               env' = (if fs envPath' \<noteq> None then dotenv_config fs envPath' env else env);
               apiKey' = env' ''ELEVENLABS_API_KEY''
           in case apiKey' of
                Some (c # cs) \<Rightarrow> (Inr \<lparr>Config.apiKey = c # cs\<rparr>, env')
              | _ \<Rightarrow> (Inl (Error (''ELEVENLABS_API_KEY not found. '' @
                          ''Set it via .env file, environment variable, or --api-key flag.'')),
                       env')))"


section \<open>Command output\<close>

text \<open>
  A command writes lines with \<^verbatim>\<open>console.log\<close> and \<^verbatim>\<open>console.error\<close> and may end
  the process with \<^verbatim>\<open>process.exit\<close>.
\<close>

record console =
  stdout :: "string list"
  stderr :: "string list"
  exit_code :: "int option"

text \<open>
  \<^verbatim>\<open>error instanceof Error ? error.message : String(error)\<close>; the transport's
  rejections are \<^verbatim>\<open>Error\<close> instances.
\<close>

definition thrown_message :: "thrown \<Rightarrow> string" where
  "thrown_message e =
     (case e of Error m \<Rightarrow> m | Rethrown t \<Rightarrow> transport_error.message t | TypeError m \<Rightarrow> m)"

text \<open>Template interpolation of a \<^verbatim>\<open>string | undefined\<close>.\<close>

definition interpolate :: "string option \<Rightarrow> string" where
  "interpolate s = (case s of None \<Rightarrow> ''undefined'' | Some v \<Rightarrow> v)"

text \<open>The non-ASCII literals, byte for byte as the source files hold them.\<close>

definition clipboard :: string where
  "clipboard = [CHR 0xF0, CHR 0x9F, CHR 0x93, CHR 0x8B]"

definition ballot_x :: string where
  "ballot_x = [CHR 0xE2, CHR 0x9C, CHR 0x97]"

definition failed_marker :: string where
  "failed_marker = [CHR 0xC3, CHR 0xA2, CHR 0xC5, CHR 0x92] @ '' Failed''"

definition success_marker :: string where
  "success_marker =
     [CHR 0xC3, CHR 0xA2, CHR 0xC5, CHR 0x93, CHR 0xE2, CHR 0x80, CHR 0xA6] @ '' Success''"

definition agent_label :: string where
  "agent_label =
     [CHR 0xC3, CHR 0xB0, CHR 0xC5, CHR 0xB8, CHR 0xC2, CHR 0xA4, CHR 0xE2, CHR 0x80, CHR 0x93]
     @ '' Agent''"

definition user_label :: string where
  "user_label =
     [CHR 0xC3, CHR 0xB0, CHR 0xC5, CHR 0xB8, CHR 0xE2, CHR 0x80, CHR 0x98, CHR 0xC2, CHR 0xA4]
     @ '' User''"

definition analyze_ballot_x :: string where
  "analyze_ballot_x = [CHR 0xC3, CHR 0xA2, CHR 0xC5, CHR 0x93, CHR 0xE2, CHR 0x80, CHR 0x94]"


section \<open>The list command (commands/list.ts)\<close>

record listCommand_options =
  recent :: "int option"
  apiKey :: string

fun conversations_forEach ::
  "ConversationListItem list \<Rightarrow> nat \<Rightarrow> string list \<Rightarrow> string list" where
  "conversations_forEach [] index out = out"
| "conversations_forEach (conv # rest) index out =
     conversations_forEach rest (Suc index)
       (out @ [number_to_string (int index + 1) @ ''. '' @ ConversationListItem.conversation_id conv,
               ''   Agent: '' @ ConversationListItem.agent_id conv,
               ''   Created: '' @ created_at conv,
               []])"

text \<open>
  \<open>recent = None\<close> stands for \<^verbatim>\<open>undefined\<close> and for \<^verbatim>\<open>NaN\<close>: both are falsy, as
  is \<open>0\<close>, and then the limit is 10.
\<close>

definition listCommand ::
  "(axios_config \<Rightarrow> ConversationListResponse http_get) \<Rightarrow> listCommand_options \<Rightarrow> console" where
  "listCommand axios_create options =
     (let client = ElevenLabsClient axios_create (listCommand_options.apiKey options);
          limit' = (case recent options of None \<Rightarrow> 10 | Some n \<Rightarrow> if n = 0 then 10 else n)
      in case listConversations client (Some \<lparr>limit = Some limit', offset = Some 0\<rparr>) of
           Inr result' \<Rightarrow>
             \<lparr>stdout = conversations_forEach (conversations result') 0
                 [''\<newline>'' @ clipboard @ '' Recent Conversations (showing ''
                  @ number_to_string (int (length (conversations result'))) @ ''):\<newline>''],
              stderr = [], exit_code = None\<rparr>
         | Inl error' \<Rightarrow>
             \<lparr>stdout = [],
              stderr = [ballot_x @ '' Error listing conversations: '' @ thrown_message error'],
              exit_code = Some 1\<rparr>)"


section \<open>The analyze command (commands/analyze.ts)\<close>

text \<open>
  \<open>seconds\<close> is the whole number the argument holds. \<^verbatim>\<open>seconds / 60\<close> is rounded
  to a double before \<^verbatim>\<open>Math.floor\<close>; \<^verbatim>\<open>%\<close> is exact.
\<close>

definition formatDuration :: "(rat \<Rightarrow> string) \<Rightarrow> int \<Rightarrow> string" where
  "formatDuration big seconds =
     (let mins = \<lfloor>binary64 (of_int seconds / 60)\<rfloor>;
          secs = js_remainder seconds 60
      in Number_toString big mins @ ''m '' @ Number_toString big secs @ ''s'')"

fun tool_calls_forEach :: "('p \<Rightarrow> string) \<Rightarrow> 'p ToolCall list \<Rightarrow> string \<Rightarrow> string" where
  "tool_calls_forEach stringify [] output = output"
| "tool_calls_forEach stringify (toolCall # rest) output =
     tool_calls_forEach stringify rest
       (output @ ''- **'' @ name toolCall @ ''**\<newline>''
               @ ''  - ID: `'' @ ToolCall.tool_call_id toolCall @ ''`\<newline>''
               @ ''  - Parameters: `'' @ stringify (parameters toolCall) @ ''`\<newline>'')"

fun tool_results_forEach :: "'p ToolResult list \<Rightarrow> string \<Rightarrow> string" where
  "tool_results_forEach [] output = output"
| "tool_results_forEach (result' # rest) output =
     (let status' = (if truthy (error result') then failed_marker else success_marker);
          output1 = output @ ''  - '' @ status' @ '': `'' @ ToolResult.tool_call_id result'
                      @ ''`\<newline>'';
          output2 = (if truthy (error result')
                     then output1 @ ''    Error: '' @ interpolate (error result') @ ''\<newline>''
                     else output1)
      in tool_results_forEach rest output2)"

fun toolCallTurns_forEach ::
  "('p \<Rightarrow> string) \<Rightarrow> 'p ConversationMessage list \<Rightarrow> nat \<Rightarrow> string \<Rightarrow> string" where
  "toolCallTurns_forEach stringify [] index output = output"
| "toolCallTurns_forEach stringify (turn # rest) index output =
     (let output1 = output @ ''### Turn '' @ number_to_string (int index + 1) @ '' (''
                      @ number_to_string (time_in_call_secs turn)
                      @ ''s into call)\<newline>\<newline>'';
          output2 = (case tool_calls turn of
                       None \<Rightarrow> output1
                     | Some calls \<Rightarrow> tool_calls_forEach stringify calls output1);
          output3 = (case tool_results turn of
                       None \<Rightarrow> output2
                     | Some results \<Rightarrow>
                         if length results > 0
                         then tool_results_forEach results
                                (output2 @ ''\<newline>  **Results:**\<newline>'')
                         else output2)
      in toolCallTurns_forEach stringify rest (Suc index) (output3 @ ''\<newline>''))"

definition analyzeToolCalls :: "('p \<Rightarrow> string) \<Rightarrow> 'p Conversation \<Rightarrow> string" where
  "analyzeToolCalls stringify conversation =
     (let output = ''\<newline>## Tool Calls Analysis\<newline>\<newline>'';
          toolCallTurns =
            (case transcript conversation of
               None \<Rightarrow> []
             | Some turns \<Rightarrow>
                 filter (\<lambda>turn. case tool_calls turn of None \<Rightarrow> False
                                | Some calls \<Rightarrow> length calls > 0) turns)
      in if length toolCallTurns = 0 then output @ ''_No tool calls detected_\<newline>''
         else toolCallTurns_forEach stringify toolCallTurns 0 output)"

fun turnsWithMetrics_forEach ::
  "(rat \<Rightarrow> string) \<Rightarrow> 'p ConversationMessage list \<Rightarrow> nat \<Rightarrow> string \<Rightarrow> string" where
  "turnsWithMetrics_forEach big [] index output = output"
| "turnsWithMetrics_forEach big (turn # rest) index output =
     (let ttfb = or_else (map_option (\<lambda>l. toFixed3 big (elapsed_time l))
                   (Option.bind (conversation_turn_metrics turn) convai_llm_service_ttfb)) ''N/A'';
          ttfs = or_else (map_option (\<lambda>l. toFixed3 big (elapsed_time l))
                   (Option.bind (conversation_turn_metrics turn) convai_llm_service_ttf_sentence))
                   ''N/A''
      in turnsWithMetrics_forEach big rest (Suc index)
           (output @ ''| '' @ number_to_string (int index + 1) @ '' | '' @ ttfb @ '' | '' @ ttfs
                   @ '' |\<newline>''))"

definition analyzeMetrics :: "(rat \<Rightarrow> string) \<Rightarrow> 'p Conversation \<Rightarrow> string" where
  "analyzeMetrics big conversation =
     (let output = ''\<newline>## Performance Metrics\<newline>\<newline>'';
          turnsWithMetrics =
            (case transcript conversation of
               None \<Rightarrow> []
             | Some turns \<Rightarrow> filter (\<lambda>turn. conversation_turn_metrics turn \<noteq> None) turns)
      in if length turnsWithMetrics = 0 then output @ ''_No metrics available_\<newline>''
         else turnsWithMetrics_forEach big turnsWithMetrics 0
                (output @ ''| Turn | TTFB (s) | TTF Sentence (s) |\<newline>''
                        @ ''|------|----------|------------------|\<newline>''))"

fun transcript_forEach :: "'p ConversationMessage list \<Rightarrow> string \<Rightarrow> string" where
  "transcript_forEach [] markdown = markdown"
| "transcript_forEach (turn # rest) markdown =
     (let role' = (if role turn = agent then agent_label else user_label)
      in transcript_forEach rest
           (markdown @ ''### '' @ role' @ '' ('' @ number_to_string (time_in_call_secs turn)
                     @ ''s)\<newline>\<newline>''
                     @ ConversationMessage.message turn @ ''\<newline>\<newline>''))"

text \<open>
  The report built between the fetch and \<^verbatim>\<open>console.log\<close>. Reading
  \<^verbatim>\<open>conversation.metadata.call_duration_secs\<close> throws when the body has no metadata;
  nothing has been written by then.
\<close>

definition analyze_markdown ::
  "('p \<Rightarrow> string) \<Rightarrow> (rat \<Rightarrow> string) \<Rightarrow> string \<Rightarrow> 'p Conversation \<Rightarrow> thrown + string" where
  "analyze_markdown stringify big conversationId conversation =
     (case metadata conversation of
        Undefined \<Rightarrow>
          Inl (TypeError
                 ''Cannot read properties of undefined (reading 'call_duration_secs')'')
      | Null \<Rightarrow>
          Inl (TypeError ''Cannot read properties of null (reading 'call_duration_secs')'')
      | Present md \<Rightarrow>
          (let markdown = ''# Conversation Analysis: '' @ conversationId @ ''\<newline>\<newline>'';
               markdown = markdown @ ''## Summary\<newline>\<newline>'';
               markdown = markdown @ ''- **Agent ID:** '' @ Conversation.agent_id conversation
                                   @ ''\<newline>'';
               markdown = markdown @ ''- **Status:** '' @ Conversation.status conversation
                                   @ ''\<newline>'';
               markdown = markdown @ ''- **Duration:** '' @ formatDuration big (call_duration_secs md)
                                   @ ''\<newline>'';
               markdown = markdown @ ''- **Cost:** '' @ number_to_string (cost md)
                                   @ '' credits\<newline>'';
               markdown = (case analysis conversation of
                             None \<Rightarrow> markdown
                           | Some a \<Rightarrow>
                               if call_successful a \<noteq> []
                               then markdown @ ''- **Call Success:** '' @ call_successful a
                                             @ ''\<newline>''
                               else markdown);
               markdown = markdown @ ''\<newline>'';
               markdown = (case analysis conversation of
                             None \<Rightarrow> markdown
                           | Some a \<Rightarrow>
                               if transcript_summary a \<noteq> []
                               then markdown @ ''## Transcript Summary\<newline>\<newline>''
                                             @ transcript_summary a @ ''\<newline>''
                               else markdown);
               markdown = markdown @ analyzeToolCalls stringify conversation;
               markdown = markdown @ analyzeMetrics big conversation;
               markdown = markdown @ ''\<newline>## Full Transcript\<newline>\<newline>'';
               markdown = (case transcript conversation of
                             None \<Rightarrow> markdown
                           | Some turns \<Rightarrow> transcript_forEach turns markdown)
           in Inr markdown))"

record analyzeCommand_options =
  apiKey :: string

definition analyzeCommand ::
  "('p \<Rightarrow> string) \<Rightarrow> (rat \<Rightarrow> string) \<Rightarrow> (axios_config \<Rightarrow> 'p Conversation http_get) \<Rightarrow>
   string \<Rightarrow> analyzeCommand_options \<Rightarrow> console" where
  "analyzeCommand stringify big axios_create conversationId options =
     (let client = ElevenLabsClient axios_create (analyzeCommand_options.apiKey options)
      in case (case getConversation client conversationId of
                 Inl error' \<Rightarrow> Inl error'
               | Inr conversation \<Rightarrow> analyze_markdown stringify big conversationId conversation) of
           Inr markdown \<Rightarrow> \<lparr>stdout = [markdown], stderr = [], exit_code = None\<rparr>
         | Inl error' \<Rightarrow>
             \<lparr>stdout = [],
              stderr = [analyze_ballot_x @ '' Error analyzing conversation: ''
                        @ thrown_message error'],
              exit_code = Some 1\<rparr>)"


section \<open>Notions of the specification\<close>

text \<open>
  The definitions of this section follow the specification's words, not the source; the
  theorems compare the program with them.
\<close>

text \<open>The number a string of decimal digits denotes.\<close>

definition digit_value :: "char \<Rightarrow> nat" where
  "digit_value c = of_char c - 48"

definition read_decimal :: "string \<Rightarrow> nat" where
  "read_decimal s = foldl (\<lambda>acc c. 10 * acc + digit_value c) 0 s"

text \<open>
  The lines the list view shows for the item at position \<open>k\<close> (counted from 1), and the
  heading line announcing \<open>n\<close> items.
\<close>

definition list_entry :: "nat \<Rightarrow> ConversationListItem \<Rightarrow> string list" where
  "list_entry k conv =
     [decimal k @ ''. '' @ ConversationListItem.conversation_id conv,
      ''   Agent: '' @ ConversationListItem.agent_id conv,
      ''   Created: '' @ created_at conv,
      []]"

definition list_header :: "nat \<Rightarrow> string" where
  "list_header n =
     ''\<newline>'' @ clipboard @ '' Recent Conversations (showing '' @ decimal n @ ''):\<newline>''"

text \<open>
  The value the env file supplies for the API-key variable, if any, and the condition under
  which claim C8 says the resolver fails: no explicit key, no value from the env file, no
  value in the process environment.
\<close>

definition file_value :: "string \<Rightarrow> filesystem \<Rightarrow> LoadConfigOptions \<Rightarrow> string option" where
  "file_value default_path fs options =
     (case fs (or_else (envPath options) default_path) of
        None \<Rightarrow> None
      | Some parsed \<Rightarrow> parsed ''ELEVENLABS_API_KEY'')"

definition nothing_supplied :: "string \<Rightarrow> filesystem \<Rightarrow> env \<Rightarrow> LoadConfigOptions \<Rightarrow> bool" where
  "nothing_supplied default_path fs env options =
     (\<not> truthy (LoadConfigOptions.apiKey options)
      \<and> \<not> truthy (file_value default_path fs options)
      \<and> \<not> truthy (env ''ELEVENLABS_API_KEY''))"

text \<open>
  The turns of a conversation, the turns that bear tool calls (a tool-call list that is
  present and not empty), and the subsection of the tool-call analysis for such a turn at
  position \<open>k\<close> among them: a heading with \<open>k\<close> and the turn's time, one entry per call
  with its name, identifier and encoded parameters, the results of the turn as the
  program lists them, and a blank line.
\<close>

definition the_turns :: "'p Conversation \<Rightarrow> 'p ConversationMessage list" where
  "the_turns conversation = (case transcript conversation of None \<Rightarrow> [] | Some turns \<Rightarrow> turns)"

definition bears_tool_calls :: "'p ConversationMessage \<Rightarrow> bool" where
  "bears_tool_calls turn = (case tool_calls turn of Some (c # cs) \<Rightarrow> True | _ \<Rightarrow> False)"

definition call_entry :: "('p \<Rightarrow> string) \<Rightarrow> 'p ToolCall \<Rightarrow> string" where
  "call_entry stringify call =
     ''- **'' @ name call @ ''**\<newline>'' @
     ''  - ID: `'' @ ToolCall.tool_call_id call @ ''`\<newline>'' @
     ''  - Parameters: `'' @ stringify (parameters call) @ ''`\<newline>''"

definition results_list :: "'p ConversationMessage \<Rightarrow> string" where
  "results_list turn =
     (case tool_results turn of
        Some (r # rs) \<Rightarrow> tool_results_forEach (r # rs) ''\<newline>  **Results:**\<newline>''
      | _ \<Rightarrow> [])"

definition tool_subsection :: "('p \<Rightarrow> string) \<Rightarrow> nat \<Rightarrow> 'p ConversationMessage \<Rightarrow> string" where
  "tool_subsection stringify k turn =
     ''### Turn '' @ decimal k @ '' ('' @ number_to_string (time_in_call_secs turn)
       @ ''s into call)\<newline>\<newline>'' @
     concat (map (call_entry stringify)
               (case tool_calls turn of None \<Rightarrow> [] | Some calls \<Rightarrow> calls)) @
     results_list turn @ ''\<newline>''"

text \<open>
  The turns with a metrics block, the cell of a named latency (the placeholder when the
  metric is absent, the program's rendering of the value otherwise) and the table row of
  such a turn at position \<open>k\<close> among them.
\<close>

definition has_metrics :: "'p ConversationMessage \<Rightarrow> bool" where
  "has_metrics turn = (conversation_turn_metrics turn \<noteq> None)"

definition metric_cell :: "(rat \<Rightarrow> string) \<Rightarrow> latency option \<Rightarrow> string" where
  "metric_cell big m = (case m of None \<Rightarrow> ''N/A'' | Some l \<Rightarrow> toFixed3 big (elapsed_time l))"

definition metrics_row :: "(rat \<Rightarrow> string) \<Rightarrow> nat \<Rightarrow> 'p ConversationMessage \<Rightarrow> string" where
  "metrics_row big k turn =
     ''| '' @ decimal k @ '' | ''
     @ metric_cell big (Option.bind (conversation_turn_metrics turn) convai_llm_service_ttfb)
     @ '' | ''
     @ metric_cell big (Option.bind (conversation_turn_metrics turn) convai_llm_service_ttf_sentence)
     @ '' |\<newline>''"

text \<open>
  A value to three decimal places: rounded to the nearest thousandth (a tie goes away from
  zero), the whole part in decimal, a point, and exactly three digits.
\<close>

definition digits3 :: "nat \<Rightarrow> string" where
  "digits3 n = [digit_char (n div 100 mod 10), digit_char (n div 10 mod 10), digit_char (n mod 10)]"

definition three_places :: "rat \<Rightarrow> string" where
  "three_places x =
     (let n = nat \<lfloor>\<bar>x\<bar> * 1000 + 1 / 2\<rfloor>
      in (if x < 0 then ''-'' else []) @ decimal (n div 1000) @ ''.'' @ digits3 n)"

text \<open>
  The head of a report: the title with the conversation identifier, the summary section
  (agent, status, duration, cost and the call-success verdict when there is one) and the
  transcript summary when the analysis supplies one.
\<close>

definition summary_section ::
  "(rat \<Rightarrow> string) \<Rightarrow> string \<Rightarrow> 'p Conversation \<Rightarrow> ConversationMetadata \<Rightarrow> string" where
  "summary_section big conversationId conversation md =
     ''# Conversation Analysis: '' @ conversationId @ ''\<newline>\<newline>''
     @ ''## Summary\<newline>\<newline>''
     @ ''- **Agent ID:** '' @ Conversation.agent_id conversation @ ''\<newline>''
     @ ''- **Status:** '' @ Conversation.status conversation @ ''\<newline>''
     @ ''- **Duration:** '' @ formatDuration big (call_duration_secs md) @ ''\<newline>''
     @ ''- **Cost:** '' @ number_to_string (cost md) @ '' credits\<newline>''
     @ (case analysis conversation of
          None \<Rightarrow> []
        | Some a \<Rightarrow>
            if call_successful a = [] then []
            else ''- **Call Success:** '' @ call_successful a @ ''\<newline>'')
     @ ''\<newline>''
     @ (case analysis conversation of
          None \<Rightarrow> []
        | Some a \<Rightarrow>
            if transcript_summary a = [] then []
            else ''## Transcript Summary\<newline>\<newline>'' @ transcript_summary a @ ''\<newline>'')"


section \<open>Example inputs\<close>

definition example_item :: "string \<Rightarrow> ConversationListItem" where
  "example_item i =
     \<lparr>conversation_id = ''conv_'' @ i, agent_id = ''agent_'' @ i,
      created_at = ''2025-10-15T10:00:00Z'', status = None\<rparr>"

definition five_items :: "ConversationListItem list" where
  "five_items = map example_item [''1'', ''2'', ''3'', ''4'', ''5'']"

text \<open>A server that answers every request with the same five items.\<close>

definition five_item_server :: "axios_config \<Rightarrow> ConversationListResponse http_get" where
  "five_item_server config req = Inr \<lparr>conversations = five_items\<rparr>"

text \<open>A server that honours the page size: it answers with that many leading items.\<close>

definition paging_server :: "axios_config \<Rightarrow> ConversationListResponse http_get" where
  "paging_server config req =
     (case map_of (params req) ''page_size'' of
        Some (Some n) \<Rightarrow> Inr \<lparr>conversations = take (nat n) five_items\<rparr>
      | _ \<Rightarrow> Inr \<lparr>conversations = five_items\<rparr>)"

text \<open>
  A rejection with a 404 response and one without any response. A transport that rejects
  the requests for the conversation \<open>conv_invalid\<close> and the list request of page size 0
  with the first, the requests for \<open>conv_offline\<close> and the list request without a page
  size with the second, and answers every other request. A transport that answers every
  request with the request itself, to observe what an operation sends.
\<close>

definition not_found :: transport_error where
  "not_found =
     \<lparr>message = ''Request failed with status code 404'',
      response = Some \<lparr>status = 404, statusText = ''Not Found''\<rparr>\<rparr>"

definition unreachable :: transport_error where
  "unreachable = \<lparr>message = ''getaddrinfo ENOTFOUND api.elevenlabs.io'', response = None\<rparr>"

definition selective :: "unit http_get" where
  "selective req =
     (if url req = ''/v1/convai/conversations/conv_invalid''
         \<or> url req = ''/v1/convai/conversations/conv_invalid/audio''
         \<or> (url req = ''/v1/convai/conversations'' \<and> params req = [(''page_size'', Some 0)])
      then Inl not_found
      else if url req = ''/v1/convai/conversations/conv_offline''
         \<or> url req = ''/v1/convai/conversations/conv_offline/audio''
         \<or> (url req = ''/v1/convai/conversations'' \<and> params req = [(''page_size'', None)])
      then Inl unreachable
      else Inr ())"

definition echo :: "request http_get" where
  "echo req = Inr req"

text \<open>
  A process environment in which the API-key variable has the given value, an env file at
  the default path that defines it, and options without an explicit key.
\<close>

definition shell_env :: "string \<Rightarrow> env" where
  "shell_env v = [''ELEVENLABS_API_KEY'' \<mapsto> v]"

definition env_file :: "string \<Rightarrow> filesystem" where
  "env_file v = [''/project/.env'' \<mapsto> [''ELEVENLABS_API_KEY'' \<mapsto> v]]"

definition no_options :: LoadConfigOptions where
  "no_options = \<lparr>LoadConfigOptions.apiKey = None, envPath = None\<rparr>"

text \<open>
  A parameter encoder for the examples, and a conversation of three turns: a user turn
  without tool calls, an agent turn with one call whose result carries the empty string
  as its error, and an agent turn with one call whose result carries a real error.
\<close>

definition encode_unit :: "unit \<Rightarrow> string" where
  "encode_unit p = ''{}''"

definition plain_turn :: "unit ConversationMessage" where
  "plain_turn =
     \<lparr>role = user, message = ''Hello'', tool_calls = None, tool_results = None,
      time_in_call_secs = 1, conversation_turn_metrics = None\<rparr>"

definition empty_error_result :: "unit ToolResult" where
  "empty_error_result = \<lparr>ToolResult.tool_call_id = ''call_1'', result = (), error = Some []\<rparr>"

definition timeout_result :: "unit ToolResult" where
  "timeout_result = \<lparr>ToolResult.tool_call_id = ''call_2'', result = (), error = Some ''timeout''\<rparr>"

definition done_result :: "unit ToolResult" where
  "done_result = \<lparr>ToolResult.tool_call_id = ''call_3'', result = (), error = None\<rparr>"

definition empty_error_turn :: "unit ConversationMessage" where
  "empty_error_turn =
     \<lparr>role = agent, message = ''Looking it up'',
      tool_calls = Some [\<lparr>ToolCall.tool_call_id = ''call_1'', name = ''lookup'', parameters = ()\<rparr>],
      tool_results = Some [empty_error_result],
      time_in_call_secs = 3, conversation_turn_metrics = None\<rparr>"

definition timeout_turn :: "unit ConversationMessage" where
  "timeout_turn =
     \<lparr>role = agent, message = ''Booking'',
      tool_calls = Some [\<lparr>ToolCall.tool_call_id = ''call_2'', name = ''book'', parameters = ()\<rparr>],
      tool_results = Some [timeout_result],
      time_in_call_secs = 7, conversation_turn_metrics = None\<rparr>"

definition example_metadata :: ConversationMetadata where
  "example_metadata =
     \<lparr>start_time_unix_secs = 1760522400, call_duration_secs = 105, cost = 42,
      termination_reason = None\<rparr>"

definition tool_conversation :: "unit Conversation" where
  "tool_conversation =
     \<lparr>Conversation.conversation_id = ''conv_abc123'', agent_id = ''agent_xyz'', status = ''done'',
      transcript = Some [plain_turn, empty_error_turn, timeout_turn],
      metadata = Present example_metadata, analysis = None\<rparr>"

text \<open>
  The platform's rendering of the number \<open>10^21\<close>, which it prints as \<open>1e+21\<close> (the
  examples give it no other number of that size), and a conversation of three
  turns: one without metrics, one whose first latency is zero and whose second is absent,
  and one with both latencies. A conversation whose only turn has a latency of \<open>10^21\<close>
  seconds.
\<close>

definition exponent_form :: "rat \<Rightarrow> string" where
  "exponent_form x = ''1e+21''"

definition slow_turn :: "unit ConversationMessage" where
  "slow_turn =
     \<lparr>role = agent, message = ''Sorry for the wait'', tool_calls = None, tool_results = None,
      time_in_call_secs = 4,
      conversation_turn_metrics =
        Some \<lparr>convai_llm_service_ttfb = Some \<lparr>elapsed_time = 10 ^ 21\<rparr>,
              convai_llm_service_ttf_sentence = None\<rparr>\<rparr>"

definition slow_conversation :: "unit Conversation" where
  "slow_conversation =
     \<lparr>Conversation.conversation_id = ''conv_abc123'', agent_id = ''agent_xyz'', status = ''done'',
      transcript = Some [slow_turn], metadata = Present example_metadata, analysis = None\<rparr>"

definition first_metrics_turn :: "unit ConversationMessage" where
  "first_metrics_turn =
     \<lparr>role = agent, message = ''Hi there!'', tool_calls = None, tool_results = None,
      time_in_call_secs = 2,
      conversation_turn_metrics =
        Some \<lparr>convai_llm_service_ttfb = Some \<lparr>elapsed_time = 0\<rparr>,
              convai_llm_service_ttf_sentence = None\<rparr>\<rparr>"

definition second_metrics_turn :: "unit ConversationMessage" where
  "second_metrics_turn =
     \<lparr>role = agent, message = ''Anything else?'', tool_calls = None, tool_results = None,
      time_in_call_secs = 9,
      conversation_turn_metrics =
        Some \<lparr>convai_llm_service_ttfb = Some \<lparr>elapsed_time = 1 / 16\<rparr>,
              convai_llm_service_ttf_sentence = Some \<lparr>elapsed_time = 3 / 2\<rparr>\<rparr>\<rparr>"

definition metrics_conversation :: "unit Conversation" where
  "metrics_conversation =
     \<lparr>Conversation.conversation_id = ''conv_abc123'', agent_id = ''agent_xyz'', status = ''done'',
      transcript = Some [plain_turn, first_metrics_turn, second_metrics_turn],
      metadata = Present example_metadata, analysis = None\<rparr>"

text \<open>A conversation with an empty transcript, and a server that answers with it.\<close>

definition silent_conversation :: "unit Conversation" where
  "silent_conversation =
     \<lparr>Conversation.conversation_id = ''conv_abc123'', agent_id = ''agent_xyz'', status = ''done'',
      transcript = Some [], metadata = Present example_metadata, analysis = None\<rparr>"

definition silent_server :: "axios_config \<Rightarrow> unit Conversation http_get" where
  "silent_server config req = Inr silent_conversation"


section \<open>Decimal rendering\<close>

lemma lt10_cases: "d < 10 \<Longrightarrow> d \<in> {0, 1, 2, 3, 4, 5, 6, 7, 8, 9::nat}"
  by auto

lemma digit_value_digit_char: "d < 10 \<Longrightarrow> digit_value (digit_char d) = d"
  using lt10_cases [of d] by (auto simp: digit_value_def digit_char_def)

lemma digit_char_zero: "d < 10 \<Longrightarrow> (digit_char d = CHR ''0'') = (d = 0)"
  using lt10_cases [of d] by (auto simp: digit_char_def)

lemma decimal_not_Nil: "decimal n \<noteq> []"
  by (subst decimal.simps) simp

lemma read_decimal_append: "read_decimal (s @ [c]) = 10 * read_decimal s + digit_value c"
  by (simp add: read_decimal_def)

lemma read_decimal_decimal: "read_decimal (decimal n) = n"
proof (induction n rule: decimal.induct)
  case (1 n)
  show ?case
  proof (cases "n < 10")
    case True
    then show ?thesis
      by (subst decimal.simps) (simp add: read_decimal_def digit_value_digit_char)
  next
    case False
    with 1 have "read_decimal (decimal (n div 10)) = n div 10" by simp
    with False show ?thesis
      by (subst decimal.simps) (simp add: read_decimal_append digit_value_digit_char)
  qed
qed

lemma hd_decimal_zero: "(hd (decimal n) = CHR ''0'') = (n = 0)"
proof (induction n rule: decimal.induct)
  case (1 n)
  show ?case
  proof (cases "n < 10")
    case True
    then show ?thesis
      by (subst decimal.simps) (simp add: digit_char_zero)
  next
    case False
    with 1 have "(hd (decimal (n div 10)) = CHR ''0'') = (n div 10 = 0)" by simp
    with False show ?thesis
      by (subst decimal.simps) (simp add: decimal_not_Nil)
  qed
qed

lemma length_decimal_lt_100: "n < 100 \<Longrightarrow> length (decimal n) \<le> 2"
  by (subst decimal.simps, subst decimal.simps) simp

lemma decimal_step: "10 \<le> n \<Longrightarrow> decimal n = decimal (n div 10) @ [digit_char (n mod 10)]"
  by (subst decimal.simps) simp

lemma number_to_string_nat: "number_to_string (int n) = decimal n"
  by (simp add: number_to_string_def)

lemma number_to_string_Suc: "number_to_string (int n + 1) = decimal (Suc n)"
  using number_to_string_nat [of "Suc n"] by (simp add: add.commute)

lemma decimal_digit: "n < 10 \<Longrightarrow> decimal n = [digit_char n]"
  by (subst decimal.simps) simp


section \<open>Binary64 rounding\<close>

lemma binade_bounds:
  assumes "0 < x"
  shows "2 powi binade x \<le> x" and "x < 2 powi (binade x + 1)"
proof -
  have "2 powi binade x \<le> x \<and> x < 2 powi (binade x + 1)"
  proof (cases "1 \<le> x")
    case True
    define n where "n = \<lfloor>x\<rfloor>"
    from True have n: "0 < n" by (simp add: n_def)
    from bitlen_bounds [OF n] have lo: "2 ^ nat (bitlen n - 1) \<le> n" and hi: "n < 2 ^ nat (bitlen n)"
      by simp_all
    from n have b: "1 \<le> bitlen n"
      using bitlen_eq_zero_iff [of n] bitlen_nonneg [of n] by linarith
    have e: "binade x = bitlen n - 1"
      using True by (simp add: binade_def n_def)
    have "(2::rat) powi (bitlen n - 1) = of_int (2 ^ nat (bitlen n - 1))"
      using b by (simp add: power_int_def)
    also have "\<dots> \<le> of_int n" using lo by (simp only: of_int_le_iff)
    also have "\<dots> \<le> x" by (simp add: n_def)
    finally have 1: "2 powi binade x \<le> x" by (simp add: e)
    from hi have "n + 1 \<le> 2 ^ nat (bitlen n)" by simp
    then have "(of_int (n + 1) :: rat) \<le> of_int (2 ^ nat (bitlen n))"
      by (simp only: of_int_le_iff)
    moreover have "x < of_int (n + 1)" unfolding n_def by linarith
    moreover have "(2::rat) powi (bitlen n) = of_int (2 ^ nat (bitlen n))"
      using b by (simp add: power_int_def)
    ultimately have "x < 2 powi (binade x + 1)" by (simp add: e)
    with 1 show ?thesis by simp
  next
    case False
    define y where "y = 1 / x"
    define m where "m = \<lceil>y\<rceil> - 1"
    from False assms have y: "1 < y" by (simp add: y_def)
    then have "1 < \<lceil>y\<rceil>" by (simp add: less_ceiling_iff)
    then have m: "0 < m" by (simp add: m_def)
    from bitlen_bounds [OF m] have lo: "2 ^ nat (bitlen m - 1) \<le> m" and hi: "m < 2 ^ nat (bitlen m)"
      by simp_all
    from m have b: "1 \<le> bitlen m"
      using bitlen_eq_zero_iff [of m] bitlen_nonneg [of m] by linarith
    have e: "binade x = - bitlen m"
      using False by (simp add: binade_def m_def y_def)
    have x: "x = 1 / y" using assms by (simp add: y_def)
    have my: "of_int m < y" "y \<le> of_int m + 1"
      by (simp_all add: m_def) linarith+
    from hi have "m + 1 \<le> 2 ^ nat (bitlen m)" by simp
    then have "(of_int (m + 1) :: rat) \<le> of_int (2 ^ nat (bitlen m))"
      by (simp only: of_int_le_iff)
    with my have "y \<le> 2 ^ nat (bitlen m)" by simp
    then have le: "1 / (2 ^ nat (bitlen m)) \<le> 1 / y"
      using y by (intro divide_left_mono) simp_all
    have "(2::rat) powi (- bitlen m) = 1 / 2 ^ nat (bitlen m)"
      using b by (simp add: power_int_def field_simps)
    then have "(2::rat) powi binade x = 1 / 2 ^ nat (bitlen m)" by (simp only: e)
    also note le
    also have "1 / y = x" by (simp only: x)
    finally have 1: "2 powi binade x \<le> x" .
    from lo have "(2::rat) ^ nat (bitlen m - 1) \<le> of_int m" by simp
    with my have "2 ^ nat (bitlen m - 1) < y" by linarith
    then have lt: "1 / y < 1 / (2 ^ nat (bitlen m - 1))"
      using y by (intro divide_strict_left_mono) simp_all
    have "(2::rat) powi (- bitlen m + 1) = 1 / 2 ^ nat (bitlen m - 1)"
    proof (cases "bitlen m = 1")
      case True
      then show ?thesis by simp
    next
      case False
      with b have "- bitlen m + 1 < 0" "nat (bitlen m - 1) = nat (- (- bitlen m + 1))" by simp_all
      then show ?thesis by (simp add: power_int_def field_simps)
    qed
    then have p: "(2::rat) powi (binade x + 1) = 1 / 2 ^ nat (bitlen m - 1)" by (simp only: e)
    have "x = 1 / y" by (simp only: x)
    also note lt
    also note p [symmetric]
    finally have "x < 2 powi (binade x + 1)" .
    with 1 show ?thesis by simp
  qed
  then show "2 powi binade x \<le> x" and "x < 2 powi (binade x + 1)" by simp_all
qed

lemma binade_ge: "0 < x \<Longrightarrow> 2 powi e \<le> x \<Longrightarrow> e \<le> binade x"
proof (rule ccontr)
  assume x: "0 < x" and le: "2 powi e \<le> x" and "\<not> e \<le> binade x"
  then have "binade x + 1 \<le> e" by simp
  then have "(2::rat) powi (binade x + 1) \<le> 2 powi e"
    by (intro power_int_increasing) simp_all
  with binade_bounds(2) [OF x] le show False by simp
qed

lemma binade_le: "0 < x \<Longrightarrow> x < 2 powi (e + 1) \<Longrightarrow> binade x \<le> e"
proof (rule ccontr)
  assume x: "0 < x" and lt: "x < 2 powi (e + 1)" and "\<not> binade x \<le> e"
  then have "e + 1 \<le> binade x" by simp
  then have "(2::rat) powi (e + 1) \<le> 2 powi binade x"
    by (intro power_int_increasing) simp_all
  with binade_bounds(1) [OF x] lt show False by simp
qed

lemma round_half_even_ge: "of_int N \<le> y \<Longrightarrow> N \<le> round_half_even y"
proof -
  assume "of_int N \<le> y"
  then have "N \<le> \<lfloor>y\<rfloor>" by (simp add: le_floor_iff)
  then show ?thesis by (simp add: round_half_even_def Let_def)
qed

lemma round_half_even_less:
  assumes "y < of_int N - 1 / 2"
  shows "round_half_even y < N"
proof -
  have f: "of_int \<lfloor>y\<rfloor> \<le> y" by simp
  show ?thesis
  proof (cases "y - of_int \<lfloor>y\<rfloor> < 1 / 2")
    case True
    from f assms have "(of_int \<lfloor>y\<rfloor> :: rat) < of_int N" by linarith
    then have "\<lfloor>y\<rfloor> < N" by (simp only: of_int_less_iff)
    with True show ?thesis by (simp add: round_half_even_def Let_def)
  next
    case False
    with assms have "(of_int \<lfloor>y\<rfloor> :: rat) + 1 < of_int N" by linarith
    then have "(of_int (\<lfloor>y\<rfloor> + 1) :: rat) < of_int N" by simp
    then have "\<lfloor>y\<rfloor> + 1 < N" by (simp only: of_int_less_iff)
    then show ?thesis by (simp add: round_half_even_def Let_def)
  qed
qed

lemma round_half_even_of_int: "round_half_even (of_int z) = z"
  by (simp add: round_half_even_def)

text \<open>A positive number is the rounding of its scaling by the unit of its binade.\<close>

lemma binary64_positive:
  "0 < x \<Longrightarrow>
   binary64 x = 2 powi (binade x - 52) * of_int (round_half_even (x / 2 powi (binade x - 52)))"
  by (simp add: binary64_def Let_def)

text \<open>A whole number that is a double is a multiple of the unit of its binade.\<close>

lemma binary64_int_dvd:
  assumes s: "0 < s" and rep: "binary64 (of_int s) = of_int s" and big: "2 ^ (52 + t) \<le> s"
  shows "2 ^ t dvd s"
proof -
  define e where "e = binade (of_int s)"
  have pos: "(0::rat) < of_int s" using s by simp
  from big have "(of_int (2 ^ (52 + t)) :: rat) \<le> of_int s" by (simp only: of_int_le_iff)
  then have "(2::rat) powi (52 + int t) \<le> of_int s" by (simp add: power_int_def nat_add_distrib)
  from binade_ge [OF pos this] have e: "52 + int t \<le> e" by (simp add: e_def)
  define d where "d = nat (e - 52) - t"
  from e have n: "nat (e - 52) = t + d" by (simp add: d_def)
  from e have "(2::rat) powi (e - 52) = 2 ^ nat (e - 52)" by (simp add: power_int_def)
  then have u: "(2::rat) powi (e - 52) = of_int (2 ^ t * 2 ^ d)" by (simp add: n power_add)
  define m where "m = round_half_even (of_int s / 2 powi (e - 52))"
  from rep have "(of_int s :: rat) = 2 powi (e - 52) * of_int m"
    by (simp add: binary64_positive [OF pos] e_def m_def)
  then have "(of_int s :: rat) = of_int (2 ^ t * 2 ^ d * m)" by (simp add: u)
  then have "s = 2 ^ t * 2 ^ d * m" by (simp only: of_int_eq_iff)
  then show ?thesis by (simp add: mult.assoc)
qed

text \<open>Every whole number below \<open>2^53\<close> is a double.\<close>

lemma binary64_safe_integer:
  assumes "0 \<le> s" and "s < 2 ^ 53"
  shows "binary64 (of_int s) = of_int s"
proof (cases "s = 0")
  case True
  then show ?thesis by (simp add: binary64_def)
next
  case False
  with assms have pos: "(0::rat) < of_int s" by simp
  define e where "e = binade (of_int s)"
  from assms have "(of_int s :: rat) < of_int (2 ^ 53)" by (simp only: of_int_less_iff)
  then have "(of_int s :: rat) < 2 powi (52 + 1)" by simp
  from binade_le [OF pos this] have e: "e \<le> 52" by (simp add: e_def)
  define j where "j = nat (52 - e)"
  from e have u: "(2::rat) powi (e - 52) = 1 / 2 ^ j"
    by (cases "e = 52") (simp_all add: power_int_def j_def field_simps)
  have "(of_int s :: rat) / (1 / 2 ^ j) = of_int (s * 2 ^ j)" by simp
  then have "round_half_even (of_int s / (1 / 2 ^ j)) = s * 2 ^ j"
    by (simp only: round_half_even_of_int)
  then show ?thesis
    by (simp add: binary64_positive [OF pos] e_def [symmetric] u)
qed

text \<open>
  The division by 60, rounded to a double and floored, is the whole quotient as long as
  the remainder stays far enough below 60 for the unit of the quotient's binade.
\<close>

lemma floor_binary64_div_60:
  assumes s: "0 < s"
    and e: "binade (of_int s / 60) \<le> 52"
    and gap: "30 < 2 ^ nat (52 - binade (of_int s / 60)) * (60 - s mod 60)"
  shows "\<lfloor>binary64 (of_int s / 60)\<rfloor> = s div 60"
proof -
  define x :: rat where "x = of_int s / 60"
  define j where "j = nat (52 - binade x)"
  define k where "k = s div 60"
  define r where "r = s mod 60"
  have pos: "0 < x" using s by (simp add: x_def)
  have sx: "x = of_int k + of_int r / 60"
  proof -
    have "s = 60 * k + r" by (simp add: k_def r_def)
    then have "(of_int s :: rat) = 60 * of_int k + of_int r" by simp
    then show ?thesis by (simp add: x_def)
  qed
  have r: "0 \<le> r" "r < 60" by (simp_all add: r_def)
  from e have u: "(2::rat) powi (binade x - 52) = 1 / 2 ^ j"
    by (cases "binade x = 52") (simp_all add: power_int_def j_def x_def field_simps)
  define m where "m = round_half_even (x * 2 ^ j)"
  have b: "binary64 x = of_int m / 2 ^ j"
    by (simp add: binary64_positive [OF pos] u m_def)
  have "(of_int (k * 2 ^ j) :: rat) \<le> x * 2 ^ j"
    using r by (simp add: sx field_simps)
  then have lo: "k * 2 ^ j \<le> m"
    unfolding m_def by (rule round_half_even_ge)
  from gap have g: "(30::rat) < 2 ^ j * (60 - of_int r)"
  proof -
    from gap have "30 < 2 ^ j * (60 - r)" by (simp add: j_def x_def r_def)
    then have "(of_int 30 :: rat) < of_int (2 ^ j * (60 - r))" by (simp only: of_int_less_iff)
    then show ?thesis by simp
  qed
  have "x * 2 ^ j < of_int ((k + 1) * 2 ^ j) - 1 / 2"
    using g by (simp add: sx field_simps)
  then have hi: "m < (k + 1) * 2 ^ j"
    unfolding m_def by (rule round_half_even_less)
  have p: "(0::rat) < 2 ^ j" by simp
  from lo have "(of_int (k * 2 ^ j) :: rat) \<le> of_int m" by (simp only: of_int_le_iff)
  then have 1: "of_int k \<le> binary64 x"
    using p by (simp add: b field_simps)
  from hi have "(of_int m :: rat) < of_int ((k + 1) * 2 ^ j)" by (simp only: of_int_less_iff)
  then have 2: "binary64 x < of_int k + 1"
    using p by (simp add: b field_simps)
  from 1 2 have "\<lfloor>binary64 x\<rfloor> = k" by (intro floor_unique) simp_all
  then show ?thesis by (simp add: x_def k_def)
qed


section \<open>Duration formatting\<close>

lemma floor_binary64_duration:
  assumes "0 \<le> s" and "s < 67553994410557496" and rep: "binary64 (of_int s) = of_int s"
  shows "\<lfloor>binary64 (of_int s / 60)\<rfloor> = s div 60"
proof (cases "s = 0")
  case True
  then show ?thesis by (simp add: binary64_def)
next
  case False
  with assms have s: "0 < s" by simp
  define e where "e = binade (of_int s / 60)"
  define r where "r = s mod 60"
  have pos: "(0::rat) < of_int s / 60" using s by simp
  have r: "0 \<le> r" "r < 60" by (simp_all add: r_def)
  from assms(2) have "(of_int s :: rat) < of_int 67553994410557496"
    by (simp only: of_int_less_iff)
  then have "(of_int s :: rat) / 60 < 2 powi (50 + 1)" by simp
  from binade_le [OF pos this] have e50: "e \<le> 50" by (simp add: e_def)
  have lower: "2 ^ n * 60 \<le> s" if "e = int n" for n
  proof -
    from binade_bounds(1) [OF pos] that have "(2::rat) ^ n \<le> of_int s / 60"
      by (simp add: e_def)
    then have "(of_int (2 ^ n * 60) :: rat) \<le> of_int s" by (simp add: field_simps)
    then show ?thesis by (simp only: of_int_le_iff)
  qed
  consider "e \<le> 47" | "e = 48" | "e = 49" | "e = 50"
    using e50 by linarith
  then have "30 < 2 ^ nat (52 - e) * (60 - r)"
  proof cases
    case 1
    then have "5 \<le> nat (52 - e)" by simp
    then have "(2::int) ^ 5 \<le> 2 ^ nat (52 - e)" by (intro power_increasing) simp_all
    moreover from r have "1 \<le> 60 - r" by simp
    ultimately have "2 ^ 5 * 1 \<le> 2 ^ nat (52 - e) * (60 - r)"
      by (intro mult_mono) simp_all
    then show ?thesis by simp
  next
    case 2
    from lower [of 48] 2 have "2 ^ (52 + 1) \<le> s" by simp
    from binary64_int_dvd [OF s rep this] have "2 dvd s" by simp
    then have "r \<le> 58" unfolding r_def by presburger
    with 2 show ?thesis by simp
  next
    case 3
    from lower [of 49] 3 have "2 ^ (52 + 2) \<le> s" by simp
    from binary64_int_dvd [OF s rep this] have "4 dvd s" by simp
    then have "r \<le> 56" unfolding r_def by presburger
    with 3 show ?thesis by simp
  next
    case 4
    from lower [of 50] 4 have l: "67553994410557440 \<le> s" by simp
    then have "2 ^ (52 + 3) \<le> s" by simp
    from binary64_int_dvd [OF s rep this] have "8 dvd s" by simp
    moreover define t where "t = s - 67553994410557440"
    ultimately have "8 dvd t" by simp
    from l assms(2) have t: "0 \<le> t" "t < 56" by (simp_all add: t_def)
    have "s = 1125899906842624 * 60 + t" by (simp add: t_def)
    then have "s mod 60 = t mod 60" by (simp only: mod_mult_self3)
    with t have "r = t" by (simp add: r_def)
    with \<open>8 dvd t\<close> t have "r \<le> 48" by presburger
    with 4 show ?thesis by simp
  qed
  with e50 show ?thesis
    by (intro floor_binary64_div_60 [OF s]) (simp_all add: e_def r_def)
qed

lemma formatDuration_eq:
  assumes "0 \<le> s" and "s < 67553994410557496" and "binary64 (of_int s) = of_int s"
  shows "formatDuration big s =
           decimal (nat (s div 60)) @ ''m '' @ decimal (nat (s mod 60)) @ ''s''"
proof -
  from assms have q: "0 \<le> s div 60" "s div 60 < 2 ^ 53" by simp_all
  have r: "0 \<le> s mod 60" "s mod 60 < 60" by simp_all
  from assms have rem: "js_remainder s 60 = s mod 60"
    by (cases "s = 0") (simp_all add: js_remainder_def)
  have mins: "\<lfloor>binary64 (of_int s / 60)\<rfloor> = s div 60"
    using assms by (rule floor_binary64_duration)
  have p: "(2::int) ^ 53 = 9007199254740992" by simp
  from q r have small: "\<bar>s div 60\<bar> < 2 ^ 53" "\<bar>s mod 60\<bar> < 2 ^ 53"
    unfolding p by linarith+
  have n: "Number_toString big (s div 60) = decimal (nat (s div 60))"
    "Number_toString big (s mod 60) = decimal (nat (s mod 60))"
    using q(1) r(1) by (simp_all only: Number_toString_def small if_True number_to_string_def)
      simp_all
  show ?thesis
    by (simp add: formatDuration_def Let_def rem mins n)
qed

text \<open>
  Claim C7, as the program has it. For every non-negative whole number of seconds \<open>s\<close>
  that a double holds exactly and that is below 67553994410557496, \<open>formatDuration\<close>
  gives the minutes, the letter m, a space, the seconds and the letter s, where the
  minutes are the quotient of \<open>s\<close> by 60 and the seconds the remainder, both printed in
  decimal without padding: each numeral denotes its number, starts with the digit 0 only
  when the number is 0, and the seconds take at most two digits.
\<close>

theorem formatDuration_minutes_seconds:
  assumes "0 \<le> s" and "s < 67553994410557496" and "binary64 (of_int s) = of_int s"
  shows "formatDuration big s =
           decimal (nat (s div 60)) @ ''m '' @ decimal (nat (s mod 60)) @ ''s''
       \<and> read_decimal (decimal (nat (s div 60))) = nat (s div 60)
       \<and> read_decimal (decimal (nat (s mod 60))) = nat (s mod 60)
       \<and> (hd (decimal (nat (s div 60))) = CHR ''0'') = (s div 60 = 0)
       \<and> (hd (decimal (nat (s mod 60))) = CHR ''0'') = (s mod 60 = 0)
       \<and> length (decimal (nat (s mod 60))) \<le> 2"
proof -
  from assms have q: "0 \<le> s div 60" by simp
  have r: "0 \<le> s mod 60" "s mod 60 < 60" by simp_all
  have fd: "formatDuration big s =
              decimal (nat (s div 60)) @ ''m '' @ decimal (nat (s mod 60)) @ ''s''"
    using assms by (rule formatDuration_eq)
  have l: "length (decimal (nat (s mod 60))) \<le> 2"
    using r by (intro length_decimal_lt_100) simp
  from q r have z: "(nat (s div 60) = 0) = (s div 60 = 0)" "(nat (s mod 60) = 0) = (s mod 60 = 0)"
    by linarith+
  show ?thesis
    using fd l z by (simp only: read_decimal_decimal hd_decimal_zero simp_thms)
qed

text \<open>The three durations the specification lists: 105, 0 and 59 seconds.\<close>

theorem formatDuration_examples:
  "formatDuration exponent_form 105 = ''1m 45s''
   \<and> formatDuration exponent_form 0 = ''0m 0s''
   \<and> formatDuration exponent_form 59 = ''0m 59s''"
proof -
  have a: "binary64 (of_int 105) = of_int 105" "binary64 (of_int 0) = of_int 0"
    "binary64 (of_int 59) = of_int 59"
    by (rule binary64_safe_integer; simp)+
  show ?thesis
    using formatDuration_minutes_seconds [OF _ _ a(1), of exponent_form]
      formatDuration_minutes_seconds [OF _ _ a(2), of exponent_form]
      formatDuration_minutes_seconds [OF _ _ a(3), of exponent_form]
    by (simp add: decimal_step decimal_digit digit_char_def)
qed

text \<open>
  Claim C7 as stated fails on large durations. 67553994410557496 is a double (it is
  \<open>60 * 2^50 + 56\<close>, a multiple of 8 below \<open>2^56\<close>); its quotient by 60 is
  1125899906842624, but the division rounds to the next whole number and the minutes
  shown are 1125899906842625.
\<close>

theorem formatDuration_rounds_up:
  "binary64 (of_int 67553994410557496) = of_int 67553994410557496
   \<and> 67553994410557496 div 60 = (1125899906842624::int)
   \<and> formatDuration exponent_form 67553994410557496 = ''1125899906842625m 56s''"
proof -
  have a: "binary64 (of_int 67553994410557496) = of_int 67553994410557496"
    by code_simp
  have b: "\<lfloor>binary64 (of_int 67553994410557496 / 60)\<rfloor> = 1125899906842625"
    by code_simp
  have c: "js_remainder 67553994410557496 60 = 56"
    by (simp add: js_remainder_def)
  have d: "decimal 1125899906842625 = ''1125899906842625''" "decimal 56 = ''56''"
    by (simp_all add: decimal_step decimal_digit digit_char_def)
  have f: "formatDuration exponent_form 67553994410557496 = ''1125899906842625m 56s''"
    unfolding formatDuration_def Let_def b c
    by (simp add: Number_toString_def number_to_string_def d)
  show ?thesis
    using a f by simp
qed


section \<open>The remote service client\<close>

text \<open>
  Claim C1. When the HTTP call that a client operation makes (fetch one conversation,
  list conversations, fetch audio) is rejected with the value \<open>err\<close>, the operation
  fails: if \<open>err\<close> carries a response, with a fresh error whose message is exactly the
  text \<open>API Error:\<close>, a space, the status, a space and the status text; if it carries
  none, with \<open>err\<close> itself, unchanged. Whatever the transport does with other requests
  has no part in it.
\<close>

theorem failure_mapping:
  "(client \<lparr>url = ''/v1/convai/conversations/'' @ conversationId, params = [],
             responseType = None\<rparr> = Inl err \<longrightarrow>
      getConversation client conversationId =
        (case response err of
           Some r \<Rightarrow> Inl (Error (''API Error: '' @ number_to_string (error_response.status r)
                                  @ '' '' @ statusText r))
         | None \<Rightarrow> Inl (Rethrown err)))
   \<and> (client \<lparr>url = ''/v1/convai/conversations'',
               params = [(''page_size'', Option.bind options limit)],
               responseType = None\<rparr> = Inl err \<longrightarrow>
      listConversations client options =
        (case response err of
           Some r \<Rightarrow> Inl (Error (''API Error: '' @ number_to_string (error_response.status r)
                                  @ '' '' @ statusText r))
         | None \<Rightarrow> Inl (Rethrown err)))
   \<and> (client \<lparr>url = ''/v1/convai/conversations/'' @ conversationId @ ''/audio'', params = [],
               responseType = Some ''arraybuffer''\<rparr> = Inl err \<longrightarrow>
      getAudio client conversationId =
        (case response err of
           Some r \<Rightarrow> Inl (Error (''API Error: '' @ number_to_string (error_response.status r)
                                  @ '' '' @ statusText r))
         | None \<Rightarrow> Inl (Rethrown err)))"
  by (simp add: getConversation_def listConversations_def listConversations_request_def
      getAudio_def split: option.split)

text \<open>
  On a transport that rejects some requests and answers others, a 404 response with the
  text \<open>Not Found\<close> gives the message \<open>API Error: 404 Not Found\<close>, and a rejection
  without a response comes back as it is.
\<close>

theorem failure_mapping_not_found:
  "getConversation selective ''conv_invalid'' = Inl (Error ''API Error: 404 Not Found'')
   \<and> listConversations selective (Some \<lparr>limit = Some 0, offset = None\<rparr>) =
       Inl (Error ''API Error: 404 Not Found'')
   \<and> getAudio selective ''conv_invalid'' = Inl (Error ''API Error: 404 Not Found'')
   \<and> getConversation selective ''conv_offline'' = Inl (Rethrown unreachable)
   \<and> listConversations selective None = Inl (Rethrown unreachable)
   \<and> getAudio selective ''conv_offline'' = Inl (Rethrown unreachable)
   \<and> getConversation selective ''conv_abc123'' = Inr ()"
proof -
  have n: "number_to_string 404 = ''404''"
    by (simp add: number_to_string_def decimal_step decimal_digit digit_char_def)
  have ok: "getConversation selective ''conv_abc123'' = Inr ()"
    by (simp add: getConversation_def selective_def)
  show ?thesis
    using failure_mapping [of selective "''conv_invalid''" not_found
        "Some \<lparr>limit = Some 0, offset = None\<rparr>"]
      failure_mapping [of selective "''conv_offline''" unreachable None]
    by (simp add: selective_def not_found_def unreachable_def n ok)
qed

text \<open>
  Claim C10. \<open>listConversations\<close> sends one request, to the list path, whose only query
  parameter is \<open>page_size\<close> with the limit of the options (undefined without options);
  the offset is not sent. Its result depends on the transport only through the answer to
  that request, and two calls whose options differ only in the offset return the same
  value.
\<close>

theorem listConversations_offset_unused:
  "listConversations echo (Some options) =
     Inr \<lparr>url = ''/v1/convai/conversations'', params = [(''page_size'', limit options)],
          responseType = None\<rparr>
   \<and> listConversations echo None =
     Inr \<lparr>url = ''/v1/convai/conversations'', params = [(''page_size'', None)],
          responseType = None\<rparr>
   \<and> listConversations client (Some options) =
       listConversations
         (\<lambda>req. client \<lparr>url = ''/v1/convai/conversations'',
                            params = [(''page_size'', limit options)], responseType = None\<rparr>)
         (Some options)
   \<and> listConversations client (Some (options\<lparr>offset := other\<rparr>)) =
       listConversations client (Some options)"
  by (simp add: listConversations_request_def listConversations_def echo_def)


section \<open>The list view\<close>

lemma conversations_forEach_entries:
  "conversations_forEach cs i out =
     out @ concat (map (\<lambda>(k, conv). list_entry k conv) (enumerate (Suc i) cs))"
  by (induction cs arbitrary: i out) (simp_all add: list_entry_def number_to_string_Suc)

text \<open>
  Claim C3, as the program has it. \<open>listConversations\<close> called with limit \<open>n\<close> sends
  \<open>n\<close> as the page size and returns the server's answer as it is, and the list command
  shows every item of that answer, in the server's order, numbered from 1: nothing is
  sorted, dropped, repeated or cut to \<open>n\<close> on the client. The result has at most \<open>n\<close>
  items exactly when the server's answer has.
\<close>

theorem listConversations_returns_response:
  assumes "ElevenLabsClient axios_create key
             (listConversations_request (Some \<lparr>limit = Some n, offset = Some 0\<rparr>)) = Inr resp"
    and "n \<noteq> 0"
  shows "listConversations (ElevenLabsClient axios_create key)
           (Some \<lparr>limit = Some n, offset = Some 0\<rparr>) = Inr resp
       \<and> listCommand axios_create \<lparr>recent = Some n, apiKey = key\<rparr> =
           \<lparr>stdout = list_header (length (conversations resp))
                     # concat (map (\<lambda>(k, conv). list_entry k conv)
                                 (enumerate 1 (conversations resp))),
            stderr = [], exit_code = None\<rparr>"
  using assms
  by (simp add: listConversations_def listCommand_def Let_def conversations_forEach_entries
      list_header_def number_to_string_nat)

text \<open>
  With limit 2 against a server that honours the page size, the first two items are
  returned and shown.
\<close>

theorem listConversations_paging_server:
  "listCommand paging_server \<lparr>recent = Some 2, apiKey = ''key''\<rparr> =
     \<lparr>stdout = [list_header 2,
        ''1. conv_1'', ''   Agent: agent_1'', ''   Created: 2025-10-15T10:00:00Z'', [],
        ''2. conv_2'', ''   Agent: agent_2'', ''   Created: 2025-10-15T10:00:00Z'', []],
      stderr = [], exit_code = None\<rparr>
   \<and> listConversations (ElevenLabsClient paging_server ''key'')
       (Some \<lparr>limit = Some 2, offset = Some 0\<rparr>) =
       Inr \<lparr>conversations = [example_item ''1'', example_item ''2'']\<rparr>"
proof -
  have r: "ElevenLabsClient paging_server ''key''
             (listConversations_request (Some \<lparr>limit = Some 2, offset = Some 0\<rparr>)) =
           Inr \<lparr>conversations = [example_item ''1'', example_item ''2'']\<rparr>"
    by (simp add: ElevenLabsClient_def paging_server_def listConversations_request_def
        five_items_def numeral_2_eq_2)
  have h: "list_header (Suc (Suc 0)) = list_header 2"
    by (simp add: numeral_2_eq_2)
  show ?thesis
    using listConversations_returns_response [OF r]
    by (simp add: list_entry_def example_item_def decimal_digit digit_char_def h)
qed

text \<open>
  With limit 2 against a server response of five items, all five are returned and shown:
  the bound of claim C3 as stated does not hold on the client.
\<close>

theorem listConversations_five_for_two:
  "listConversations (ElevenLabsClient five_item_server ''key'')
     (Some \<lparr>limit = Some 2, offset = Some 0\<rparr>) = Inr \<lparr>conversations = five_items\<rparr>
   \<and> length five_items = 5
   \<and> stdout (listCommand five_item_server \<lparr>recent = Some 2, apiKey = ''key''\<rparr>) =
       [list_header 5,
        ''1. conv_1'', ''   Agent: agent_1'', ''   Created: 2025-10-15T10:00:00Z'', [],
        ''2. conv_2'', ''   Agent: agent_2'', ''   Created: 2025-10-15T10:00:00Z'', [],
        ''3. conv_3'', ''   Agent: agent_3'', ''   Created: 2025-10-15T10:00:00Z'', [],
        ''4. conv_4'', ''   Agent: agent_4'', ''   Created: 2025-10-15T10:00:00Z'', [],
        ''5. conv_5'', ''   Agent: agent_5'', ''   Created: 2025-10-15T10:00:00Z'', []]"
  by (simp add: listConversations_def listCommand_def ElevenLabsClient_def five_item_server_def
      five_items_def example_item_def list_header_def number_to_string_def decimal_digit
      digit_char_def)


section \<open>The configuration resolver\<close>

lemma truthy_Some: "truthy (Some v) = (v \<noteq> [])"
  by (simp add: truthy_def)

lemma not_truthy_cases: "(\<not> truthy s) = (s = None \<or> s = Some [])"
  by (cases s) (simp_all add: truthy_def)

lemma loadConfig_explicit:
  "k \<noteq> [] \<Longrightarrow> LoadConfigOptions.apiKey options = Some k \<Longrightarrow>
   loadConfig default_path fs env options = (Inr \<lparr>Config.apiKey = k\<rparr>, env)"
  by (cases k) (simp_all add: loadConfig_def)

lemma loadConfig_merged:
  "\<not> truthy (LoadConfigOptions.apiKey options) \<Longrightarrow>
   loadConfig default_path fs env options =
     (let env' = dotenv_config fs (or_else (envPath options) default_path) env
      in (case env' ''ELEVENLABS_API_KEY'' of
            Some (c # cs) \<Rightarrow> Inr \<lparr>Config.apiKey = c # cs\<rparr>
          | _ \<Rightarrow> Inl (Error (''ELEVENLABS_API_KEY not found. '' @
                     ''Set it via .env file, environment variable, or --api-key flag.'')),
          env'))"
  by (auto simp: not_truthy_cases loadConfig_def Let_def dotenv_config_def
      split: option.splits list.splits)

lemma merged_value:
  "dotenv_config fs (or_else (envPath options) default_path) env ''ELEVENLABS_API_KEY'' =
     (case env ''ELEVENLABS_API_KEY'' of
        Some v \<Rightarrow> Some v
      | None \<Rightarrow> file_value default_path fs options)"
  by (simp add: dotenv_config_def file_value_def split: option.splits)

text \<open>
  Claim C2, as the program has it. A non-empty explicit key is returned, whatever the env
  file and the process environment hold, and the environment is left as it was.
  Otherwise, if the variable is set to a non-empty value in the process environment, that
  value is returned even when an existing env file defines another one, and the merge
  leaves the variable as it was. Otherwise, if the variable is not set in the process
  environment and the env file exists and defines it with a non-empty value, the file's
  value is returned.
\<close>

theorem loadConfig_priority:
  "(k \<noteq> [] \<and> LoadConfigOptions.apiKey options = Some k \<longrightarrow>
      loadConfig default_path fs env options = (Inr \<lparr>Config.apiKey = k\<rparr>, env))
   \<and> (\<not> truthy (LoadConfigOptions.apiKey options) \<and> b \<noteq> []
        \<and> env ''ELEVENLABS_API_KEY'' = Some b \<longrightarrow>
      fst (loadConfig default_path fs env options) = Inr \<lparr>Config.apiKey = b\<rparr>
      \<and> snd (loadConfig default_path fs env options) ''ELEVENLABS_API_KEY'' = Some b)
   \<and> (\<not> truthy (LoadConfigOptions.apiKey options) \<and> c \<noteq> []
        \<and> env ''ELEVENLABS_API_KEY'' = None
        \<and> file_value default_path fs options = Some c \<longrightarrow>
      fst (loadConfig default_path fs env options) = Inr \<lparr>Config.apiKey = c\<rparr>)"
proof (intro conjI impI)
  assume "k \<noteq> [] \<and> LoadConfigOptions.apiKey options = Some k"
  then show "loadConfig default_path fs env options = (Inr \<lparr>Config.apiKey = k\<rparr>, env)"
    by (simp add: loadConfig_explicit)
next
  assume a: "\<not> truthy (LoadConfigOptions.apiKey options) \<and> b \<noteq> []
             \<and> env ''ELEVENLABS_API_KEY'' = Some b"
  then obtain x xs where "b = x # xs" by (cases b) auto
  with a show "fst (loadConfig default_path fs env options) = Inr \<lparr>Config.apiKey = b\<rparr>"
    by (simp add: loadConfig_merged merged_value Let_def)
  from a show "snd (loadConfig default_path fs env options) ''ELEVENLABS_API_KEY'' = Some b"
    by (simp add: loadConfig_merged merged_value Let_def)
next
  assume a: "\<not> truthy (LoadConfigOptions.apiKey options) \<and> c \<noteq> []
             \<and> env ''ELEVENLABS_API_KEY'' = None
             \<and> file_value default_path fs options = Some c"
  then obtain x xs where "c = x # xs" by (cases c) auto
  with a show "fst (loadConfig default_path fs env options) = Inr \<lparr>Config.apiKey = c\<rparr>"
    by (simp add: loadConfig_merged merged_value Let_def)
qed

text \<open>
  The specification's examples: explicit key A with B in the environment and C in the env
  file resolves to A; B in the environment and C in the file resolves to B; C in the file
  alone resolves to C.
\<close>

theorem loadConfig_priority_examples:
  "loadConfig ''/project/.env'' (env_file ''C'') (shell_env ''B'')
     \<lparr>LoadConfigOptions.apiKey = Some ''A'', envPath = None\<rparr> =
       (Inr \<lparr>Config.apiKey = ''A''\<rparr>, shell_env ''B'')
   \<and> fst (loadConfig ''/project/.env'' (env_file ''C'') (shell_env ''B'') no_options) =
       Inr \<lparr>Config.apiKey = ''B''\<rparr>
   \<and> fst (loadConfig ''/project/.env'' (env_file ''C'') Map.empty no_options) =
       Inr \<lparr>Config.apiKey = ''C''\<rparr>"
  using loadConfig_priority [of "''A''"
      "\<lparr>LoadConfigOptions.apiKey = Some ''A'', envPath = None\<rparr>" "''/project/.env''" "env_file ''C''" "shell_env ''B''" "''B''" "''C''"]
    loadConfig_priority [of "''A''" no_options "''/project/.env''" "env_file ''C''"
      "shell_env ''B''" "''B''" "''C''"]
    loadConfig_priority [of "''A''" no_options "''/project/.env''" "env_file ''C''"
      Map.empty "''B''" "''C''"]
  by (simp add: truthy_def no_options_def shell_env_def env_file_def file_value_def or_else_def)

text \<open>
  Claim C2 as stated fails in two states without an explicit key. With the variable set
  to the empty string in the process environment and an env file defining it as C, the
  merge leaves the empty value in place and the resolver throws: neither the
  environment's value nor the file's is returned. With the variable not set and an env
  file defining it as the empty string, the resolver throws as well.
\<close>

theorem loadConfig_empty_value_throws:
  "loadConfig ''/project/.env'' (env_file ''C'') (shell_env []) no_options =
     (Inl (Error (''ELEVENLABS_API_KEY not found. '' @
             ''Set it via .env file, environment variable, or --api-key flag.'')),
      shell_env [])
   \<and> fst (loadConfig ''/project/.env'' (env_file []) Map.empty no_options) =
       Inl (Error (''ELEVENLABS_API_KEY not found. '' @
              ''Set it via .env file, environment variable, or --api-key flag.''))"
  by (simp add: loadConfig_def no_options_def shell_env_def env_file_def or_else_def
      dotenv_config_def Let_def fun_eq_iff)

text \<open>
  Claim C8, as the program has it. The resolver fails exactly when there is no non-empty
  explicit key and the variable is empty or missing after the merge: it is set to the
  empty string in the process environment (whatever the env file defines), or it is not
  set there and the env file is absent, does not define it, or defines it as empty. It
  then fails with the message \<open>ELEVENLABS_API_KEY not found. Set it via .env file,
  environment variable, or --api-key flag.\<close>
\<close>

theorem loadConfig_fails_iff:
  "isl (fst (loadConfig default_path fs env options)) =
     (\<not> truthy (LoadConfigOptions.apiKey options)
      \<and> (case env ''ELEVENLABS_API_KEY'' of
           Some v \<Rightarrow> v = []
         | None \<Rightarrow> \<not> truthy (file_value default_path fs options)))
   \<and> (isl (fst (loadConfig default_path fs env options)) \<longrightarrow>
        fst (loadConfig default_path fs env options) =
          Inl (Error (''ELEVENLABS_API_KEY not found. Set it via .env file, ''
                      @ ''environment variable, or --api-key flag.'')))"
proof (cases "truthy (LoadConfigOptions.apiKey options)")
  case True
  then obtain k where "LoadConfigOptions.apiKey options = Some k" "k \<noteq> []"
    by (cases "LoadConfigOptions.apiKey options") (auto simp: truthy_def)
  then have "loadConfig default_path fs env options = (Inr \<lparr>Config.apiKey = k\<rparr>, env)"
    by (simp add: loadConfig_explicit)
  with True show ?thesis by simp
next
  case False
  then show ?thesis
    by (auto simp: loadConfig_merged merged_value Let_def truthy_def
        split: option.splits list.splits)
qed

text \<open>With nothing set anywhere the resolver fails with that message.\<close>

theorem loadConfig_nothing_set:
  "isl (fst (loadConfig ''/project/.env'' Map.empty Map.empty no_options))
   \<and> fst (loadConfig ''/project/.env'' Map.empty Map.empty no_options) =
       Inl (Error (''ELEVENLABS_API_KEY not found. Set it via .env file, ''
                   @ ''environment variable, or --api-key flag.''))"
  using loadConfig_fails_iff [of "''/project/.env''" Map.empty Map.empty no_options]
  by (simp add: truthy_def no_options_def file_value_def or_else_def)

text \<open>
  Claim C8 as stated fails: with the variable set to the empty string in the process
  environment and an env file that supplies the value C, the resolver fails although the
  env file supplies a value.
\<close>

theorem loadConfig_fails_despite_env_file:
  "isl (fst (loadConfig ''/project/.env'' (env_file ''C'') (shell_env []) no_options))
   \<and> file_value ''/project/.env'' (env_file ''C'') no_options = Some ''C''
   \<and> \<not> nothing_supplied ''/project/.env'' (env_file ''C'') (shell_env []) no_options"
  by (simp add: loadConfig_def no_options_def shell_env_def env_file_def or_else_def
      dotenv_config_def Let_def file_value_def nothing_supplied_def truthy_def)


section \<open>The tool-call analysis\<close>

lemma tool_calls_forEach_entries:
  "tool_calls_forEach stringify calls out = out @ concat (map (call_entry stringify) calls)"
  by (induction calls arbitrary: out) (simp_all add: call_entry_def)

lemma tool_results_forEach_append:
  "tool_results_forEach rs out = out @ tool_results_forEach rs []"
proof (induction rs arbitrary: out)
  case Nil
  then show ?case by simp
next
  case (Cons r rs)
  show ?case
    by (simp add: Let_def Cons.IH [of "out @ _"] Cons.IH [of "_ # _"])
qed

lemma results_list_eq:
  "(case tool_results turn of
      None \<Rightarrow> out
    | Some results \<Rightarrow>
        if length results > 0
        then tool_results_forEach results (out @ ''\<newline>  **Results:**\<newline>'')
        else out) = out @ results_list turn"
  by (simp add: results_list_def tool_results_forEach_append [of _ "out @ _"]
      tool_results_forEach_append [of _ "_ # _"] split: option.split list.split)

lemma toolCallTurns_forEach_subsections:
  "toolCallTurns_forEach stringify turns i out =
     out @ concat (map (\<lambda>(k, turn). tool_subsection stringify k turn) (enumerate (Suc i) turns))"
proof (induction turns arbitrary: i out)
  case Nil
  then show ?case by simp
next
  case (Cons turn turns)
  show ?case
    by (simp add: Let_def Cons.IH results_list_eq tool_calls_forEach_entries tool_subsection_def
        number_to_string_Suc split: option.split)
qed

lemma filter_bears_tool_calls:
  "filter (\<lambda>turn. case tool_calls turn of None \<Rightarrow> False | Some calls \<Rightarrow> length calls > 0) turns =
   filter bears_tool_calls turns"
  by (rule filter_cong) (auto simp: bears_tool_calls_def split: option.split list.split)

text \<open>
  Claim C4. The tool-call analysis is the section heading followed, when no turn of the
  transcript bears tool calls, by the single line saying that none were detected and
  nothing else; otherwise by one subsection for each turn that bears tool calls, in
  transcript order, numbered from 1 by the turn's position among those turns (not by its
  position in the transcript), each showing every call's name, identifier and encoded
  parameters.
\<close>

theorem analyzeToolCalls_sections:
  "analyzeToolCalls stringify conversation =
     ''\<newline>## Tool Calls Analysis\<newline>\<newline>'' @
     (if \<not> list_ex bears_tool_calls (the_turns conversation)
      then ''_No tool calls detected_\<newline>''
      else concat (map (\<lambda>(k, turn). tool_subsection stringify k turn)
                     (enumerate 1 (filter bears_tool_calls (the_turns conversation)))))"
proof -
  have e: "(filter bears_tool_calls (the_turns conversation) = []) =
           (\<not> list_ex bears_tool_calls (the_turns conversation))"
    by (simp add: filter_empty_conv list_ex_iff)
  have f: "(case transcript conversation of
              None \<Rightarrow> []
            | Some turns \<Rightarrow>
                filter (\<lambda>turn. case tool_calls turn of None \<Rightarrow> False
                               | Some calls \<Rightarrow> length calls > 0) turns) =
           filter bears_tool_calls (the_turns conversation)"
    by (simp add: the_turns_def filter_bears_tool_calls split: option.split)
  show ?thesis
    unfolding analyzeToolCalls_def f Let_def
    by (simp add: toolCallTurns_forEach_subsections e [symmetric])
qed

text \<open>
  Claim C6, as the program has it. Every tool result listed in a report is rendered on
  its own, and its marker is decided by whether the error string is present and not
  empty: then the entry is the failure marker, the identifier and a line with the error
  text, and it does not start with the success marker; a result whose error is absent or
  the empty string is rendered as the success marker and the identifier alone, and does
  not start with the failure marker.
\<close>

theorem tool_result_markers:
  "tool_results_forEach rs out = out @ concat (map (\<lambda>r. tool_results_forEach [r] []) rs)
   \<and> (error r = Some e \<and> e \<noteq> [] \<longrightarrow>
        tool_results_forEach [r] [] =
          ''  - '' @ failed_marker @ '': `'' @ ToolResult.tool_call_id r @ ''`\<newline>''
          @ ''    Error: '' @ e @ ''\<newline>''
        \<and> \<not> prefix (''  - '' @ success_marker) (tool_results_forEach [r] []))
   \<and> (error r = None \<or> error r = Some [] \<longrightarrow>
        tool_results_forEach [r] [] =
          ''  - '' @ success_marker @ '': `'' @ ToolResult.tool_call_id r @ ''`\<newline>''
        \<and> \<not> prefix (''  - '' @ failed_marker) (tool_results_forEach [r] []))"
proof (intro conjI impI)
  show "tool_results_forEach rs out = out @ concat (map (\<lambda>r. tool_results_forEach [r] []) rs)"
  proof (induction rs arbitrary: out)
    case Nil
    then show ?case by simp
  next
    case (Cons a rs)
    have "tool_results_forEach (a # rs) out =
          tool_results_forEach rs (out @ tool_results_forEach [a] [])"
      by (simp add: Let_def)
    then show ?case by (simp add: Cons.IH)
  qed
next
  assume a: "error r = Some e \<and> e \<noteq> []"
  then show f: "tool_results_forEach [r] [] =
          ''  - '' @ failed_marker @ '': `'' @ ToolResult.tool_call_id r @ ''`\<newline>''
          @ ''    Error: '' @ e @ ''\<newline>''"
    by (simp add: Let_def truthy_def interpolate_def)
  show "\<not> prefix (''  - '' @ success_marker) (tool_results_forEach [r] [])"
    unfolding f by (simp add: failed_marker_def success_marker_def)
next
  assume a: "error r = None \<or> error r = Some []"
  then show s: "tool_results_forEach [r] [] =
          ''  - '' @ success_marker @ '': `'' @ ToolResult.tool_call_id r @ ''`\<newline>''"
    by (auto simp: Let_def truthy_def)
  show "\<not> prefix (''  - '' @ failed_marker) (tool_results_forEach [r] [])"
    unfolding s by (simp add: failed_marker_def success_marker_def)
qed

text \<open>A result with the error \<open>timeout\<close> and a result without an error.\<close>

theorem tool_result_markers_examples:
  "tool_results_forEach [timeout_result, done_result] [] =
     ''  - '' @ failed_marker @ '': `call_2`\<newline>    Error: timeout\<newline>''
     @ ''  - '' @ success_marker @ '': `call_3`\<newline>''
   \<and> \<not> prefix (''  - '' @ success_marker) (tool_results_forEach [timeout_result] [])
   \<and> \<not> prefix (''  - '' @ failed_marker) (tool_results_forEach [done_result] [])"
  using tool_result_markers [of "[timeout_result, done_result]" "[]" timeout_result "''timeout''"]
    tool_result_markers [of "[]" "[]" done_result "[]"]
  by (simp add: timeout_result_def done_result_def truthy_def interpolate_def Let_def
      failed_marker_def success_marker_def)

text \<open>
  Claim C6 as stated fails on a result whose error string is present and empty: the
  report shows it with the success marker.
\<close>

theorem empty_error_renders_success:
  "error empty_error_result = Some []
   \<and> analyzeToolCalls encode_unit tool_conversation =
       ''\<newline>## Tool Calls Analysis\<newline>\<newline>''
       @ ''### Turn 1 (3s into call)\<newline>\<newline>''
       @ ''- **lookup**\<newline>  - ID: `call_1`\<newline>  - Parameters: `{}`\<newline>''
       @ ''\<newline>  **Results:**\<newline>''
       @ ''  - '' @ success_marker @ '': `call_1`\<newline>\<newline>''
       @ ''### Turn 2 (7s into call)\<newline>\<newline>''
       @ ''- **book**\<newline>  - ID: `call_2`\<newline>  - Parameters: `{}`\<newline>''
       @ ''\<newline>  **Results:**\<newline>''
       @ ''  - '' @ failed_marker @ '': `call_2`\<newline>    Error: timeout\<newline>\<newline>''"
  by (simp add: analyzeToolCalls_def tool_conversation_def plain_turn_def empty_error_turn_def
      timeout_turn_def empty_error_result_def timeout_result_def encode_unit_def Let_def
      truthy_def interpolate_def number_to_string_def decimal_digit digit_char_def)


section \<open>The performance metrics\<close>

lemma decimal_thousands:
  assumes "1000 \<le> n"
  shows "decimal n = decimal (n div 1000) @ digits3 n"
proof -
  from assms have a: "10 \<le> n" and b: "10 \<le> n div 10" and c: "10 \<le> n div 100"
    by simp_all
  have d: "n div 10 div 10 = n div 100" "n div 100 div 10 = n div 1000"
    by (simp_all add: div_mult2_eq [symmetric])
  have "decimal n = decimal (n div 10) @ [digit_char (n mod 10)]"
    using a by (rule decimal_step)
  also have "decimal (n div 10) = decimal (n div 100) @ [digit_char (n div 10 mod 10)]"
    using decimal_step [OF b] by (simp add: d)
  also have "decimal (n div 100) = decimal (n div 1000) @ [digit_char (n div 100 mod 10)]"
    using decimal_step [OF c] by (simp add: d)
  finally show ?thesis by (simp add: digits3_def)
qed

lemma digit_char_0: "digit_char 0 = CHR ''0''"
  by (simp add: digit_char_def)

lemma decimal_below_thousand:
  assumes "n < 1000"
  shows "length (decimal n) \<le> 3"
    and "replicate (4 - length (decimal n)) (CHR ''0'') @ decimal n = CHR ''0'' # digits3 n"
proof -
  consider "n < 10" | "10 \<le> n" "n < 100" | "100 \<le> n" "n < 1000"
    using assms by linarith
  then have "length (decimal n) \<le> 3
    \<and> replicate (4 - length (decimal n)) (CHR ''0'') @ decimal n = CHR ''0'' # digits3 n"
  proof cases
    case 1
    then show ?thesis
      by (simp add: decimal_digit digits3_def digit_char_0 numeral_3_eq_3)
  next
    case 2
    then have "decimal n = [digit_char (n div 10), digit_char (n mod 10)]"
      by (simp add: decimal_step decimal_digit)
    with 2 show ?thesis
      by (simp add: digits3_def digit_char_0 numeral_2_eq_2)
  next
    case 3
    then have b: "10 \<le> n div 10" "n div 10 div 10 < 10" by simp_all
    have d: "n div 10 div 10 = n div 100"
      by (simp add: div_mult2_eq [symmetric])
    from 3 b have "decimal n = [digit_char (n div 100), digit_char (n div 10 mod 10),
                               digit_char (n mod 10)]"
      by (simp add: decimal_step [of n] decimal_step [of "n div 10"] decimal_digit d)
    with 3 show ?thesis
      by (simp add: digits3_def)
  qed
  then show "length (decimal n) \<le> 3"
    and "replicate (4 - length (decimal n)) (CHR ''0'') @ decimal n = CHR ''0'' # digits3 n"
    by simp_all
qed

lemma point_before_last_three:
  "(let m = decimal n;
        m' = (if length m \<le> 3 then replicate (4 - length m) (CHR ''0'') @ m else m);
        k = length m'
    in take (k - 3) m' @ ''.'' @ drop (k - 3) m') = decimal (n div 1000) @ ''.'' @ digits3 n"
proof (cases "n < 1000")
  case True
  have z: "decimal (n div 1000) = ''0''"
    using True by (simp add: decimal_digit digit_char_0)
  show ?thesis
    using decimal_below_thousand [OF True]
    by (simp add: Let_def z digits3_def)
next
  case False
  then have t: "decimal n = decimal (n div 1000) @ digits3 n"
    by (simp add: decimal_thousands)
  have l: "length (digits3 n) = 3" by (simp add: digits3_def)
  have "0 < length (decimal (n div 1000))"
    using decimal_not_Nil [of "n div 1000"] by simp
  then have "\<not> length (decimal n) \<le> 3"
    by (simp add: t l)
  then show ?thesis
    by (simp add: Let_def) (simp add: t l)
qed

lemma toFixed3_three_places: "\<bar>x\<bar> < 10 ^ 21 \<Longrightarrow> toFixed3 big x = three_places x"
  using point_before_last_three [of "nat \<lfloor>\<bar>x\<bar> * 1000 + 1 / 2\<rfloor>"]
  by (simp add: toFixed3_def three_places_def Let_def)

lemma toFixed3_not_Nil: "(\<And>y. big y \<noteq> []) \<Longrightarrow> toFixed3 big x \<noteq> []"
  by (simp add: toFixed3_def Let_def)

lemma cell_eq:
  "(\<And>y. big y \<noteq> []) \<Longrightarrow>
   or_else (map_option (\<lambda>l. toFixed3 big (elapsed_time l)) m) ''N/A'' = metric_cell big m"
  by (cases m) (simp_all add: or_else_def metric_cell_def toFixed3_not_Nil)

lemma turnsWithMetrics_forEach_rows:
  assumes "\<And>y. big y \<noteq> []"
  shows "turnsWithMetrics_forEach big turns i out =
     out @ concat (map (\<lambda>(k, turn). metrics_row big k turn) (enumerate (Suc i) turns))"
proof (induction turns arbitrary: i out)
  case Nil
  then show ?case by simp
next
  case (Cons turn turns)
  show ?case
    by (simp add: Let_def Cons.IH cell_eq [OF assms] metrics_row_def number_to_string_Suc)
qed

text \<open>
  Claim C5, as the program has it. Given that the platform never prints a number as the
  empty string, the performance-metrics section is its heading followed, when no turn
  has a metrics block, by the single placeholder line and no table; otherwise by the
  table head and exactly one row for each turn that has a metrics block, in transcript
  order and numbered from 1, whose cell for a named latency is the placeholder \<open>N/A\<close>
  when that metric is absent and the value otherwise. A value of magnitude below
  \<open>10^21\<close> is printed to three decimal places; from \<open>10^21\<close> on the cell is the
  platform's own rendering of the number.
\<close>

theorem analyzeMetrics_table:
  assumes "\<And>y. big y \<noteq> []"
  shows "analyzeMetrics big conversation =
           ''\<newline>## Performance Metrics\<newline>\<newline>'' @
           (if \<not> list_ex has_metrics (the_turns conversation)
            then ''_No metrics available_\<newline>''
            else ''| Turn | TTFB (s) | TTF Sentence (s) |\<newline>''
                 @ ''|------|----------|------------------|\<newline>''
                 @ concat (map (\<lambda>(k, turn). metrics_row big k turn)
                             (enumerate 1 (filter has_metrics (the_turns conversation)))))
       \<and> metric_cell big None = ''N/A''
       \<and> (\<bar>x\<bar> < 10 ^ 21 \<longrightarrow> metric_cell big (Some \<lparr>elapsed_time = x\<rparr>) = three_places x)"
proof -
  have e: "(filter has_metrics (the_turns conversation) = []) =
           (\<not> list_ex has_metrics (the_turns conversation))"
    by (simp add: filter_empty_conv list_ex_iff)
  have f: "(case transcript conversation of
              None \<Rightarrow> []
            | Some turns \<Rightarrow> filter (\<lambda>turn. conversation_turn_metrics turn \<noteq> None) turns) =
           filter has_metrics (the_turns conversation)"
    by (simp add: the_turns_def has_metrics_def [abs_def] split: option.split)
  have "analyzeMetrics big conversation =
           ''\<newline>## Performance Metrics\<newline>\<newline>'' @
           (if \<not> list_ex has_metrics (the_turns conversation)
            then ''_No metrics available_\<newline>''
            else ''| Turn | TTFB (s) | TTF Sentence (s) |\<newline>''
                 @ ''|------|----------|------------------|\<newline>''
                 @ concat (map (\<lambda>(k, turn). metrics_row big k turn)
                             (enumerate 1 (filter has_metrics (the_turns conversation)))))"
    unfolding analyzeMetrics_def f Let_def
    by (simp add: turnsWithMetrics_forEach_rows [OF assms] e [symmetric])
  then show ?thesis
    by (simp add: metric_cell_def toFixed3_three_places)
qed

text \<open>
  A latency of zero is shown as \<open>0.000\<close>, an absent one as \<open>N/A\<close>; one sixteenth of a
  second is shown as \<open>0.063\<close>.
\<close>

theorem analyzeMetrics_example:
  "analyzeMetrics exponent_form metrics_conversation =
     ''\<newline>## Performance Metrics\<newline>\<newline>''
     @ ''| Turn | TTFB (s) | TTF Sentence (s) |\<newline>''
     @ ''|------|----------|------------------|\<newline>''
     @ ''| 1 | 0.000 | N/A |\<newline>''
     @ ''| 2 | 0.063 | 1.500 |\<newline>''
   \<and> metric_cell exponent_form (Some \<lparr>elapsed_time = 1 / 16\<rparr>) = ''0.063''"
proof -
  have b: "\<And>y. exponent_form y \<noteq> []"
    by (simp add: exponent_form_def)
  have r: "\<bar>1 / 16 :: rat\<bar> < 10 ^ 21" by simp
  have fl: "\<lfloor>3001 / 2 :: rat\<rfloor> = 1500" by linarith
  have t: "three_places 0 = ''0.000''" "three_places (1 / 16) = ''0.063''"
    "three_places (3 / 2) = ''1.500''"
    by (simp_all add: three_places_def Let_def digits3_def decimal_digit digit_char_def fl)
  have c: "toFixed3 exponent_form 0 = ''0.000''" "toFixed3 exponent_form (1 / 16) = ''0.063''"
    "toFixed3 exponent_form (3 / 2) = ''1.500''"
    by (simp_all add: toFixed3_three_places t)
  show ?thesis
    using analyzeMetrics_table [of exponent_form metrics_conversation "1 / 16", OF b] r
    by (simp add: t c metrics_conversation_def the_turns_def has_metrics_def plain_turn_def
        first_metrics_turn_def second_metrics_turn_def metrics_row_def metric_cell_def
        decimal_digit digit_char_def)
qed

text \<open>
  Claim C5 as stated fails on a latency of \<open>10^21\<close> seconds: its cell is \<open>1e+21\<close>, not
  a number to three decimal places.
\<close>

theorem huge_latency_exponent_form:
  "exponent_form (10 ^ 21) = ''1e+21''
   \<and> analyzeMetrics exponent_form slow_conversation =
       ''\<newline>## Performance Metrics\<newline>\<newline>''
       @ ''| Turn | TTFB (s) | TTF Sentence (s) |\<newline>''
       @ ''|------|----------|------------------|\<newline>''
       @ ''| 1 | 1e+21 | N/A |\<newline>''"
  by (simp add: analyzeMetrics_def slow_conversation_def slow_turn_def Let_def toFixed3_def
      exponent_form_def or_else_def number_to_string_def decimal_digit digit_char_def)


section \<open>The report\<close>

lemma transcript_forEach_append:
  "transcript_forEach turns markdown = markdown @ transcript_forEach turns []"
proof (induction turns arbitrary: markdown)
  case Nil
  then show ?case by simp
next
  case (Cons turn turns)
  show ?case
    by (simp add: Let_def Cons.IH [of "markdown @ _"] Cons.IH [of "_ # _"])
qed

lemma analyze_markdown_sections:
  "metadata conversation = Present md \<Longrightarrow>
   analyze_markdown stringify big conversationId conversation =
     Inr (summary_section big conversationId conversation md
          @ analyzeToolCalls stringify conversation
          @ analyzeMetrics big conversation
          @ ''\<newline>## Full Transcript\<newline>\<newline>''
          @ transcript_forEach (the_turns conversation) [])"
  by (simp add: analyze_markdown_def summary_section_def the_turns_def Let_def
      transcript_forEach_append [of _ "_ @ _"] split: option.split)

lemma analyzeToolCalls_no_turns:
  "the_turns conversation = [] \<Longrightarrow>
   analyzeToolCalls stringify conversation =
     ''\<newline>## Tool Calls Analysis\<newline>\<newline>_No tool calls detected_\<newline>''"
  by (simp add: analyzeToolCalls_def the_turns_def Let_def split: option.splits)

lemma analyzeMetrics_no_turns:
  "the_turns conversation = [] \<Longrightarrow>
   analyzeMetrics big conversation =
     ''\<newline>## Performance Metrics\<newline>\<newline>_No metrics available_\<newline>''"
  by (simp add: analyzeMetrics_def the_turns_def Let_def split: option.splits)

text \<open>
  Claim C9. For a fetched conversation that has its metadata and whose transcript is
  empty, building the report does not throw: the report is the title and summary
  section, the tool-call heading with the line that no tool calls were detected, the
  metrics heading with the line that no metrics are available, and the full-transcript
  heading with no turn after it; the command prints it and neither reports an error nor
  exits.
\<close>

theorem empty_transcript_report:
  assumes "the_turns conversation = []"
    and "metadata conversation = Present md"
    and "getConversation (ElevenLabsClient axios_create key) conversationId = Inr conversation"
  shows "analyze_markdown stringify big conversationId conversation =
           Inr (summary_section big conversationId conversation md
                @ ''\<newline>## Tool Calls Analysis\<newline>\<newline>_No tool calls detected_\<newline>''
                @ ''\<newline>## Performance Metrics\<newline>\<newline>_No metrics available_\<newline>''
                @ ''\<newline>## Full Transcript\<newline>\<newline>'')
       \<and> analyzeCommand stringify big axios_create conversationId \<lparr>apiKey = key\<rparr> =
           \<lparr>stdout = [summary_section big conversationId conversation md
                @ ''\<newline>## Tool Calls Analysis\<newline>\<newline>_No tool calls detected_\<newline>''
                @ ''\<newline>## Performance Metrics\<newline>\<newline>_No metrics available_\<newline>''
                @ ''\<newline>## Full Transcript\<newline>\<newline>''],
            stderr = [], exit_code = None\<rparr>"
proof -
  have m: "analyze_markdown stringify big conversationId conversation =
           Inr (summary_section big conversationId conversation md
                @ ''\<newline>## Tool Calls Analysis\<newline>\<newline>_No tool calls detected_\<newline>''
                @ ''\<newline>## Performance Metrics\<newline>\<newline>_No metrics available_\<newline>''
                @ ''\<newline>## Full Transcript\<newline>\<newline>'')"
    using assms(1,2)
    by (simp add: analyze_markdown_sections analyzeToolCalls_no_turns analyzeMetrics_no_turns)
  show ?thesis
    unfolding analyzeCommand_def Let_def
    by (simp add: assms(3) m)
qed

text \<open>The report of a conversation of 105 seconds and 42 credits with an empty transcript.\<close>

theorem empty_transcript_report_example:
  "analyzeCommand encode_unit exponent_form silent_server ''conv_abc123'' \<lparr>apiKey = ''key''\<rparr> =
     \<lparr>stdout =
        [''# Conversation Analysis: conv_abc123\<newline>\<newline>''
         @ ''## Summary\<newline>\<newline>''
         @ ''- **Agent ID:** agent_xyz\<newline>''
         @ ''- **Status:** done\<newline>''
         @ ''- **Duration:** 1m 45s\<newline>''
         @ ''- **Cost:** 42 credits\<newline>''
         @ ''\<newline>''
         @ ''\<newline>## Tool Calls Analysis\<newline>\<newline>_No tool calls detected_\<newline>''
         @ ''\<newline>## Performance Metrics\<newline>\<newline>_No metrics available_\<newline>''
         @ ''\<newline>## Full Transcript\<newline>\<newline>''],
      stderr = [], exit_code = None\<rparr>"
proof -
  have t: "the_turns silent_conversation = []"
    and m: "metadata silent_conversation = Present example_metadata"
    by (simp_all add: the_turns_def silent_conversation_def)
  have g: "getConversation (ElevenLabsClient silent_server ''key'') ''conv_abc123'' =
           Inr silent_conversation"
    by (simp add: getConversation_def ElevenLabsClient_def silent_server_def)
  have a: "binary64 (of_int 105) = of_int 105"
    by (rule binary64_safe_integer) simp_all
  have fd: "formatDuration exponent_form 105 = ''1m 45s''"
    using formatDuration_eq [OF _ _ a, of exponent_form]
    by (simp add: decimal_step decimal_digit digit_char_def)
  have s: "summary_section exponent_form ''conv_abc123'' silent_conversation example_metadata =
           ''# Conversation Analysis: conv_abc123\<newline>\<newline>''
           @ ''## Summary\<newline>\<newline>''
           @ ''- **Agent ID:** agent_xyz\<newline>''
           @ ''- **Status:** done\<newline>''
           @ ''- **Duration:** 1m 45s\<newline>''
           @ ''- **Cost:** 42 credits\<newline>''
           @ ''\<newline>''"
    by (simp add: summary_section_def silent_conversation_def example_metadata_def
        fd number_to_string_def decimal_step decimal_digit digit_char_def)
  show ?thesis
    using empty_transcript_report [OF t m g, of encode_unit exponent_form]
    by (simp add: s)
qed

end
